theory Spec2Isabelle
  imports Main "HOL-Library.Char_ord" "HOL-Library.List_Lexorder" "HOL-Library.Multiset"
begin

section \<open>Exceptions and printed output\<close>

text \<open>
  Both programs (\<^verbatim>\<open>15_sqlite.py\<close> and \<^verbatim>\<open>16_mongo.py\<close>) are a class
  \<^verbatim>\<open>DatabaseManager\<close> over a backing store plus a menu loop. A Python exception is a
  value of type \<open>exn\<close>; the constructor is the exception class and its argument the text
  \<^verbatim>\<open>str(e)\<close>. Every class below derives from \<^verbatim>\<open>Exception\<close>.
  A repository operation returns \<open>(result, printed, db')\<close>: \<open>Inl e\<close> when the exception
  \<open>e\<close> leaves the method, \<open>Inr v\<close> when it returns \<open>v\<close>; \<open>printed\<close> are the arguments of
  its \<^verbatim>\<open>print\<close> calls, in order; \<open>db'\<close> is the store afterwards.
\<close>

datatype exn =
    IntegrityError string      \<comment> \<open>\<^verbatim>\<open>sqlite3.IntegrityError\<close>\<close>
  | OperationalError string    \<comment> \<open>\<^verbatim>\<open>sqlite3.OperationalError\<close>: locked file, I/O error, full disk\<close>
  | OverflowError string       \<comment> \<open>an integer that does not fit the store's 64-bit integer\<close>
  | DuplicateKeyError string   \<comment> \<open>\<^verbatim>\<open>pymongo.errors.DuplicateKeyError\<close>\<close>
  | PyMongoError string        \<comment> \<open>any other driver error: network, timeout, server\<close>
  | ValueError string
  | EOFError string

fun str_exn :: "exn \<Rightarrow> string" where
  "str_exn (IntegrityError m) = m"
| "str_exn (OperationalError m) = m"
| "str_exn (OverflowError m) = m"
| "str_exn (DuplicateKeyError m) = m"
| "str_exn (PyMongoError m) = m"
| "str_exn (ValueError m) = m"
| "str_exn (EOFError m) = m"

fun is_IntegrityError :: "exn \<Rightarrow> bool" where
  "is_IntegrityError (IntegrityError m) = True"
| "is_IntegrityError e = False"

fun is_ValueError :: "exn \<Rightarrow> bool" where
  "is_ValueError (ValueError m) = True"
| "is_ValueError e = False"

text \<open>
  Python integers are unbounded; both stores keep 64-bit signed integers, and both client
  libraries raise \<^verbatim>\<open>OverflowError\<close> for a value outside that range when they encode it.
\<close>

definition int64 :: "int \<Rightarrow> bool" where
  "int64 n \<longleftrightarrow> - (2 ^ 63) \<le> n \<and> n < 2 ^ 63"

text \<open>
  What the store does at one call is an input of the model: \<open>None\<close> when the store works,
  \<open>Some e\<close> when the call fails with \<open>e\<close> for a reason outside the program (the file is
  locked, the disk is full, the server is unreachable).
\<close>

type_synonym fault = "exn option"


section \<open>The relational variant (\<^verbatim>\<open>15_sqlite.py\<close>)\<close>

subsection \<open>Tables\<close>

text \<open>
  \<^verbatim>\<open>init_database\<close> creates two tables. \<^verbatim>\<open>created_at\<close> defaults to
  \<^verbatim>\<open>CURRENT_TIMESTAMP\<close>, the text \<^verbatim>\<open>YYYY-MM-DD HH:MM:SS\<close>; SQLite stores and compares it
  as text (bytewise, the order of \<open>string\<close> here). Ids are \<^verbatim>\<open>INTEGER PRIMARY KEY
  AUTOINCREMENT\<close>: the new rowid is one more than the largest rowid the table ever held, kept
  in \<^verbatim>\<open>sqlite_sequence\<close>. Rows are listed in rowid order, the order of insertion.
  The program never switches \<^verbatim>\<open>PRAGMA foreign_keys\<close> on, so the
  \<^verbatim>\<open>FOREIGN KEY\<close> clause of \<^verbatim>\<open>posts\<close> is parsed and not enforced.
\<close>

record user_row =
  u_id :: int
  u_name :: string
  u_email :: string
  u_age :: int
  u_created_at :: string

record post_row =
  p_id :: int
  p_user_id :: int
  p_title :: string
  p_content :: string
  p_created_at :: string

record sqlite_db =
  users :: "user_row list"
  posts :: "post_row list"
  users_seq :: int
  posts_seq :: int

definition empty_db :: sqlite_db where
  "empty_db = \<lparr>users = [], posts = [], users_seq = 0, posts_seq = 0\<rparr>"

text \<open>
  The file may exist already (\<open>Some db\<close>): \<^verbatim>\<open>CREATE TABLE IF NOT EXISTS\<close> then keeps
  its tables and rows.
\<close>

definition init_database :: "sqlite_db option \<Rightarrow> sqlite_db" where
  "init_database file = (case file of None \<Rightarrow> empty_db | Some db \<Rightarrow> db)"

definition next_rowid :: "int list \<Rightarrow> int \<Rightarrow> int" where
  "next_rowid ids seq = fold max ids seq + 1"

subsection \<open>Statements\<close>

text \<open>
  One function per SQL statement of the source. Each runs inside
  \<^verbatim>\<open>with sqlite3.connect(...) as conn\<close>, which commits when the block ends normally and
  rolls back when an exception leaves it, so a failing statement leaves the database as it
  was. Parameters are bound before the statement runs; the fault (which also stands for a
  failing \<^verbatim>\<open>connect\<close> or commit) comes next, the constraints last.
\<close>

definition overflow_msg :: string where
  "overflow_msg = ''Python int too large to convert to SQLite INTEGER''"

definition sql_insert_user ::
  "fault \<Rightarrow> string \<Rightarrow> sqlite_db \<Rightarrow> string \<Rightarrow> string \<Rightarrow> int \<Rightarrow> exn + int \<times> sqlite_db" where
  "sql_insert_user fault now db name email age =
     (if \<not> int64 age then Inl (OverflowError overflow_msg)
      else case fault of
        Some e \<Rightarrow> Inl e
      | None \<Rightarrow>
          if email \<in> set (map u_email (users db))
          then Inl (IntegrityError ''UNIQUE constraint failed: users.email'')
          else
            let rid = next_rowid (map u_id (users db)) (users_seq db) in
            Inr (rid,
              db\<lparr>users := users db @
                    [\<lparr>u_id = rid, u_name = name, u_email = email, u_age = age,
                      u_created_at = now\<rparr>],
                 users_seq := rid\<rparr>))"

definition sql_insert_post ::
  "fault \<Rightarrow> string \<Rightarrow> sqlite_db \<Rightarrow> int \<Rightarrow> string \<Rightarrow> string \<Rightarrow> exn + int \<times> sqlite_db" where
  "sql_insert_post fault now db user_id title content =
     (if \<not> int64 user_id then Inl (OverflowError overflow_msg)
      else case fault of
        Some e \<Rightarrow> Inl e
      | None \<Rightarrow>
          let rid = next_rowid (map p_id (posts db)) (posts_seq db) in
          Inr (rid,
            db\<lparr>posts := posts db @
                  [\<lparr>p_id = rid, p_user_id = user_id, p_title = title, p_content = content,
                    p_created_at = now\<rparr>],
               posts_seq := rid\<rparr>))"

definition sql_select_users :: "fault \<Rightarrow> sqlite_db \<Rightarrow> exn + user_row list" where
  "sql_select_users fault db = (case fault of Some e \<Rightarrow> Inl e | None \<Rightarrow> Inr (users db))"

text \<open>
  \<^verbatim>\<open>ORDER BY p.created_at DESC\<close>: SQLite leaves the order of rows with equal keys
  open; the model takes the reverse of the stable ascending sort.
\<close>

definition sql_select_user_posts ::
  "fault \<Rightarrow> sqlite_db \<Rightarrow> int \<Rightarrow> exn + (int \<times> string \<times> string \<times> string) list" where
  "sql_select_user_posts fault db user_id =
     (if \<not> int64 user_id then Inl (OverflowError overflow_msg)
      else case fault of
        Some e \<Rightarrow> Inl e
      | None \<Rightarrow>
          Inr (map (\<lambda>p. (p_id p, p_title p, p_content p, p_created_at p))
                 (rev (sort_key p_created_at
                    (filter (\<lambda>p. p_user_id p = user_id) (posts db))))))"

definition sql_delete_posts :: "fault \<Rightarrow> sqlite_db \<Rightarrow> int \<Rightarrow> exn + sqlite_db" where
  "sql_delete_posts fault db user_id =
     (if \<not> int64 user_id then Inl (OverflowError overflow_msg)
      else case fault of
        Some e \<Rightarrow> Inl e
      | None \<Rightarrow> Inr (db\<lparr>posts := filter (\<lambda>p. p_user_id p \<noteq> user_id) (posts db)\<rparr>))"

text \<open>The second component is \<^verbatim>\<open>cursor.rowcount\<close>, the number of rows deleted.\<close>

definition sql_delete_user :: "fault \<Rightarrow> sqlite_db \<Rightarrow> int \<Rightarrow> exn + nat \<times> sqlite_db" where
  "sql_delete_user fault db user_id =
     (if \<not> int64 user_id then Inl (OverflowError overflow_msg)
      else case fault of
        Some e \<Rightarrow> Inl e
      | None \<Rightarrow>
          Inr (length (filter (\<lambda>u. u_id u = user_id) (users db)),
               db\<lparr>users := filter (\<lambda>u. u_id u \<noteq> user_id) (users db)\<rparr>))"

subsection \<open>Repository operations\<close>

text \<open>
  \<^verbatim>\<open>create_user\<close> is the only method of this variant with a \<^verbatim>\<open>try\<close>, and it
  catches \<^verbatim>\<open>sqlite3.IntegrityError\<close> alone.
\<close>

definition sqlite_create_user ::
  "fault \<Rightarrow> string \<Rightarrow> sqlite_db \<Rightarrow> string \<Rightarrow> string \<Rightarrow> int
     \<Rightarrow> (exn + int option) \<times> string list \<times> sqlite_db" where
  "sqlite_create_user fault now db name email age =
     (case sql_insert_user fault now db name email age of
        Inr (lastrowid, db') \<Rightarrow> (Inr (Some lastrowid), [], db')
      | Inl e \<Rightarrow>
          if is_IntegrityError e then (Inr None, [''Error: '' @ str_exn e], db)
          else (Inl e, [], db))"

definition sqlite_create_post ::
  "fault \<Rightarrow> string \<Rightarrow> sqlite_db \<Rightarrow> int \<Rightarrow> string \<Rightarrow> string
     \<Rightarrow> (exn + int) \<times> string list \<times> sqlite_db" where
  "sqlite_create_post fault now db user_id title content =
     (case sql_insert_post fault now db user_id title content of
        Inr (lastrowid, db') \<Rightarrow> (Inr lastrowid, [], db')
      | Inl e \<Rightarrow> (Inl e, [], db))"

definition sqlite_get_all_users ::
  "fault \<Rightarrow> sqlite_db \<Rightarrow> (exn + user_row list) \<times> string list \<times> sqlite_db" where
  "sqlite_get_all_users fault db =
     (case sql_select_users fault db of
        Inr rows \<Rightarrow> (Inr rows, [], db)
      | Inl e \<Rightarrow> (Inl e, [], db))"

definition sqlite_get_user_posts ::
  "fault \<Rightarrow> sqlite_db \<Rightarrow> int
     \<Rightarrow> (exn + (int \<times> string \<times> string \<times> string) list) \<times> string list \<times> sqlite_db" where
  "sqlite_get_user_posts fault db user_id =
     (case sql_select_user_posts fault db user_id of
        Inr rows \<Rightarrow> (Inr rows, [], db)
      | Inl e \<Rightarrow> (Inl e, [], db))"

text \<open>
  \<^verbatim>\<open>delete_user\<close> runs two statements in one transaction: when the second fails, the
  first is rolled back with it.
\<close>

definition sqlite_delete_user ::
  "fault \<Rightarrow> fault \<Rightarrow> sqlite_db \<Rightarrow> int \<Rightarrow> (exn + bool) \<times> string list \<times> sqlite_db" where
  "sqlite_delete_user fault1 fault2 db user_id =
     (case sql_delete_posts fault1 db user_id of
        Inl e \<Rightarrow> (Inl e, [], db)
      | Inr db1 \<Rightarrow>
          (case sql_delete_user fault2 db1 user_id of
             Inl e \<Rightarrow> (Inl e, [], db)
           | Inr (rowcount, db2) \<Rightarrow> (Inr (rowcount > 0), [], db2)))"


section \<open>The document variant (\<^verbatim>\<open>16_mongo.py\<close>)\<close>

subsection \<open>Object ids\<close>

text \<open>
  \<^verbatim>\<open>bson.objectid.ObjectId\<close> is a library type, not code of the repository: 12 bytes,
  written as 24 hexadecimal digits. \<^verbatim>\<open>ObjectId.is_valid(s)\<close> accepts a string of 24
  hexadecimal digits of either case, \<^verbatim>\<open>ObjectId(s)\<close> reads it, and \<^verbatim>\<open>str\<close> writes
  the digits in lower case. The theorems below unfold none of the three.
  A field that holds an identifier holds an \<^verbatim>\<open>ObjectId\<close> or a string; the two kinds
  never compare equal in a query.
\<close>

definition lower_char :: "char \<Rightarrow> char" where
  "lower_char c =
     (let n = (of_char c :: nat) in
      if (65 \<le> n \<and> n \<le> 90) \<or> (192 \<le> n \<and> n \<le> 222 \<and> n \<noteq> 215)
      then char_of (n + 32) else c)"

definition lower :: "string \<Rightarrow> string" where
  "lower s = map lower_char s"

definition is_hexdigit :: "char \<Rightarrow> bool" where
  "is_hexdigit c \<longleftrightarrow> c \<in> set ''0123456789abcdefABCDEF''"

datatype objectid = OID (oid_hex: string)

definition is_valid :: "string \<Rightarrow> bool" where
  "is_valid s \<longleftrightarrow> length s = 24 \<and> list_all is_hexdigit s"

definition ObjectId :: "string \<Rightarrow> objectid" where
  "ObjectId s = OID (lower s)"

datatype idval = Oid objectid | Str string

fun str_idval :: "idval \<Rightarrow> string" where
  "str_idval (Oid oid) = oid_hex oid"
| "str_idval (Str s) = s"

subsection \<open>Collections\<close>

text \<open>
  \<^verbatim>\<open>created_at\<close> is \<^verbatim>\<open>datetime.now()\<close>, kept by the store as a number of
  milliseconds. \<^verbatim>\<open>insert_one\<close> gives a document without \<^verbatim>\<open>_id\<close> a new
  \<^verbatim>\<open>ObjectId\<close>, made by the driver from the time, a random value and a counter: an input
  of the model. The store keeps \<^verbatim>\<open>_id\<close> unique in every collection, and
  \<^verbatim>\<open>init_database\<close> adds the unique index on \<^verbatim>\<open>users.email\<close>.
  An age beyond 64 bits cannot be encoded (\<^verbatim>\<open>OverflowError\<close>); the model checks it
  before the fault. Every exception of a request is caught by the method that makes it, so
  the order of the two only decides which message is printed.
\<close>

record user_doc =
  ud_id :: idval
  ud_name :: string
  ud_email :: string
  ud_age :: int
  ud_created_at :: int

record post_doc =
  pd_id :: idval
  pd_user_id :: idval
  pd_title :: string
  pd_content :: string
  pd_created_at :: int

record mongo_db =
  users_collection :: "user_doc list"
  posts_collection :: "post_doc list"

definition mongo_empty :: mongo_db where
  "mongo_empty = \<lparr>users_collection = [], posts_collection = []\<rparr>"

definition users_insert_one ::
  "fault \<Rightarrow> objectid \<Rightarrow> mongo_db \<Rightarrow> string \<Rightarrow> string \<Rightarrow> int \<Rightarrow> int
     \<Rightarrow> exn + objectid \<times> mongo_db" where
  "users_insert_one fault oid db name email age created_at =
     (if \<not> int64 age then Inl (OverflowError ''MongoDB can only handle up to 8-byte ints'')
      else case fault of
        Some e \<Rightarrow> Inl e
      | None \<Rightarrow>
          if Oid oid \<in> set (map ud_id (users_collection db))
          then Inl (DuplicateKeyError ''E11000 duplicate key error collection: example_db.users index: _id_'')
          else if email \<in> set (map ud_email (users_collection db))
          then Inl (DuplicateKeyError ''E11000 duplicate key error collection: example_db.users index: email_1'')
          else
            Inr (oid,
              db\<lparr>users_collection := users_collection db @
                    [\<lparr>ud_id = Oid oid, ud_name = name, ud_email = email, ud_age = age,
                      ud_created_at = created_at\<rparr>]\<rparr>))"

definition posts_insert_one ::
  "fault \<Rightarrow> objectid \<Rightarrow> mongo_db \<Rightarrow> idval \<Rightarrow> string \<Rightarrow> string \<Rightarrow> int
     \<Rightarrow> exn + objectid \<times> mongo_db" where
  "posts_insert_one fault oid db user_id title content created_at =
     (case fault of
        Some e \<Rightarrow> Inl e
      | None \<Rightarrow>
          if Oid oid \<in> set (map pd_id (posts_collection db))
          then Inl (DuplicateKeyError ''E11000 duplicate key error collection: example_db.posts index: _id_'')
          else
            Inr (oid,
              db\<lparr>posts_collection := posts_collection db @
                    [\<lparr>pd_id = Oid oid, pd_user_id = user_id, pd_title = title,
                      pd_content = content, pd_created_at = created_at\<rparr>]\<rparr>))"

definition users_find :: "fault \<Rightarrow> mongo_db \<Rightarrow> exn + user_doc list" where
  "users_find fault db =
     (case fault of Some e \<Rightarrow> Inl e | None \<Rightarrow> Inr (users_collection db))"

text \<open>
  \<^verbatim>\<open>find({"user_id": k}).sort("created_at", -1)\<close>; as in the relational variant the
  order of documents with equal keys is open, and the model reverses the stable sort.
\<close>

definition posts_find_sorted :: "fault \<Rightarrow> mongo_db \<Rightarrow> idval \<Rightarrow> exn + post_doc list" where
  "posts_find_sorted fault db k =
     (case fault of
        Some e \<Rightarrow> Inl e
      | None \<Rightarrow>
          Inr (rev (sort_key pd_created_at
                 (filter (\<lambda>p. pd_user_id p = k) (posts_collection db)))))"

definition posts_delete_many :: "fault \<Rightarrow> mongo_db \<Rightarrow> idval \<Rightarrow> exn + mongo_db" where
  "posts_delete_many fault db k =
     (case fault of
        Some e \<Rightarrow> Inl e
      | None \<Rightarrow>
          Inr (db\<lparr>posts_collection := filter (\<lambda>p. pd_user_id p \<noteq> k) (posts_collection db)\<rparr>))"

text \<open>\<^verbatim>\<open>delete_one\<close> removes the first document that matches, and counts it.\<close>

fun delete_first :: "('a \<Rightarrow> bool) \<Rightarrow> 'a list \<Rightarrow> nat \<times> 'a list" where
  "delete_first P [] = (0, [])"
| "delete_first P (x # xs) =
     (if P x then (1, xs)
      else case delete_first P xs of (n, ys) \<Rightarrow> (n, x # ys))"

definition users_delete_one :: "fault \<Rightarrow> mongo_db \<Rightarrow> idval \<Rightarrow> exn + nat \<times> mongo_db" where
  "users_delete_one fault db k =
     (case fault of
        Some e \<Rightarrow> Inl e
      | None \<Rightarrow>
          (case delete_first (\<lambda>u. ud_id u = k) (users_collection db) of
             (deleted_count, us) \<Rightarrow> Inr (deleted_count, db\<lparr>users_collection := us\<rparr>)))"

subsection \<open>Repository operations\<close>

text \<open>Every method of this variant wraps its whole body in \<^verbatim>\<open>try ... except Exception\<close>.\<close>

definition mongo_create_user ::
  "fault \<Rightarrow> int \<Rightarrow> objectid \<Rightarrow> mongo_db \<Rightarrow> string \<Rightarrow> string \<Rightarrow> int
     \<Rightarrow> (exn + string option) \<times> string list \<times> mongo_db" where
  "mongo_create_user fault now oid db name email age =
     (case users_insert_one fault oid db name email age now of
        Inr (inserted_id, db') \<Rightarrow> (Inr (Some (oid_hex inserted_id)), [], db')
      | Inl e \<Rightarrow> (Inr None, [''Error: '' @ str_exn e], db))"

definition mongo_create_post ::
  "fault \<Rightarrow> int \<Rightarrow> objectid \<Rightarrow> mongo_db \<Rightarrow> string \<Rightarrow> string \<Rightarrow> string
     \<Rightarrow> (exn + string option) \<times> string list \<times> mongo_db" where
  "mongo_create_post fault now oid db user_id title content =
     (let user_object_id = (if is_valid user_id then Oid (ObjectId user_id) else Str user_id) in
      case posts_insert_one fault oid db user_object_id title content now of
        Inr (inserted_id, db') \<Rightarrow> (Inr (Some (oid_hex inserted_id)), [], db')
      | Inl e \<Rightarrow> (Inr None, [''Error creating post: '' @ str_exn e], db))"

definition mongo_get_all_users ::
  "fault \<Rightarrow> mongo_db \<Rightarrow> (exn + user_doc list) \<times> string list \<times> mongo_db" where
  "mongo_get_all_users fault db =
     (case users_find fault db of
        Inr us \<Rightarrow> (Inr (map (\<lambda>user. user\<lparr>ud_id := Str (str_idval (ud_id user))\<rparr>) us), [], db)
      | Inl e \<Rightarrow> (Inr [], [''Error fetching users: '' @ str_exn e], db))"

definition mongo_get_user_posts ::
  "fault \<Rightarrow> mongo_db \<Rightarrow> string \<Rightarrow> (exn + post_doc list) \<times> string list \<times> mongo_db" where
  "mongo_get_user_posts fault db user_id =
     (let user_object_id = (if is_valid user_id then Oid (ObjectId user_id) else Str user_id) in
      case posts_find_sorted fault db user_object_id of
        Inr ps \<Rightarrow>
          (Inr (map (\<lambda>post. post\<lparr>pd_id := Str (str_idval (pd_id post)),
                                  pd_user_id := Str (str_idval (pd_user_id post))\<rparr>) ps),
           [], db)
      | Inl e \<Rightarrow> (Inr [], [''Error fetching post: '' @ str_exn e], db))"

text \<open>
  The two deletes are separate requests: when the second fails, the posts are gone
  already.
\<close>

definition mongo_delete_user ::
  "fault \<Rightarrow> fault \<Rightarrow> mongo_db \<Rightarrow> string \<Rightarrow> (exn + bool) \<times> string list \<times> mongo_db" where
  "mongo_delete_user fault1 fault2 db user_id =
     (let user_object_id = (if is_valid user_id then Oid (ObjectId user_id) else Str user_id) in
      case posts_delete_many fault1 db user_object_id of
        Inl e \<Rightarrow> (Inr False, [''Error deleting user: '' @ str_exn e], db)
      | Inr db1 \<Rightarrow>
          (case users_delete_one fault2 db1 user_object_id of
             Inl e \<Rightarrow> (Inr False, [''Error deleting user: '' @ str_exn e], db1)
           | Inr (deleted_count, db2) \<Rightarrow> (Inr (deleted_count > 0), [], db2)))"


section \<open>The interactive shell\<close>

subsection \<open>Strings\<close>

text \<open>
  A \<open>char\<close> is a code point below 256. \<^verbatim>\<open>str.strip\<close> removes the white space of Python
  at both ends; \<^verbatim>\<open>int\<close> reads an optional sign and decimal digits, with single
  underscores allowed between digits, after stripping white space itself, and raises
  \<^verbatim>\<open>ValueError\<close> (here \<open>None\<close>) on anything else.
\<close>

definition isspace :: "char \<Rightarrow> bool" where
  "isspace c \<longleftrightarrow> (of_char c :: nat) \<in> set [9, 10, 11, 12, 13, 28, 29, 30, 31, 32, 133, 160]"

definition strip :: "string \<Rightarrow> string" where
  "strip s = rev (dropWhile isspace (rev (dropWhile isspace s)))"

definition isdigit :: "char \<Rightarrow> bool" where
  "isdigit c \<longleftrightarrow> 48 \<le> (of_char c :: nat) \<and> (of_char c :: nat) \<le> 57"

definition digit_val :: "char \<Rightarrow> int" where
  "digit_val c = int (of_char c) - 48"

fun digits_value :: "string \<Rightarrow> int \<Rightarrow> int option" where
  "digits_value [] acc = Some acc"
| "digits_value (c # cs) acc =
     (if isdigit c then digits_value cs (10 * acc + digit_val c)
      else if c = CHR ''_'' \<and> cs \<noteq> [] \<and> isdigit (hd cs) then digits_value cs acc
      else None)"

definition unsigned_int :: "string \<Rightarrow> int option" where
  "unsigned_int s =
     (case s of
        [] \<Rightarrow> None
      | c # cs \<Rightarrow> if isdigit c then digits_value cs (digit_val c) else None)"

definition py_int :: "string \<Rightarrow> int option" where
  "py_int s =
     (case strip s of
        [] \<Rightarrow> None
      | c # cs \<Rightarrow>
          if c = CHR ''-'' then map_option uminus (unsigned_int cs)
          else if c = CHR ''+'' then unsigned_int cs
          else unsigned_int (c # cs))"

function str_nat :: "nat \<Rightarrow> string" where
  "str_nat n =
     (if n < 10 then [char_of (48 + n)]
      else str_nat (n div 10) @ [char_of (48 + n mod 10)])"
  by pat_completeness auto
termination
  by (relation "measure id") auto

definition str_int :: "int \<Rightarrow> string" where
  "str_int i = (if i < 0 then CHR ''-'' # str_nat (nat (- i)) else str_nat (nat i))"

subsection \<open>Terminal\<close>

text \<open>
  The state of a running program: the store, the lines still to be read from standard
  input, and what has been written so far, one entry per \<^verbatim>\<open>print\<close> call or prompt.
  \<^verbatim>\<open>input\<close> writes its prompt and reads a line; at the end of the input it raises
  \<^verbatim>\<open>EOFError\<close>, which nothing in either program catches.
\<close>

record 'db shell =
  sh_db :: 'db
  stdin :: "string list"
  stdout :: "string list"

definition py_print :: "string \<Rightarrow> 'db shell \<Rightarrow> 'db shell" where
  "py_print s st = st\<lparr>stdout := stdout st @ [s]\<rparr>"

definition py_input :: "string \<Rightarrow> 'db shell \<Rightarrow> exn + string \<times> 'db shell" where
  "py_input prompt st =
     (case stdin st of
        [] \<Rightarrow> Inl (EOFError ''EOF when reading a line'')
      | line # rest \<Rightarrow> Inr (line, st\<lparr>stdin := rest, stdout := stdout st @ [prompt]\<rparr>))"

text \<open>The store after a repository call, with what the call printed.\<close>

definition after_call :: "'db \<Rightarrow> string list \<Rightarrow> 'db shell \<Rightarrow> 'db shell" where
  "after_call db' printed st = st\<lparr>sh_db := db', stdout := stdout st @ printed\<rparr>"

datatype 'a flow = Continue 'a | Break 'a

definition nl :: char where
  "nl = CHR 0x0A"

definition menu_lines :: "string \<Rightarrow> string list" where
  "menu_lines title =
     [nl # replicate 40 (CHR ''=''),
      title,
      replicate 40 (CHR ''=''),
      ''1. Create User'',
      ''2. View All Users'',
      ''3. Create Post'',
      ''4. View User Posts'',
      ''5. Delete User'',
      ''6. Exit'',
      replicate 40 (CHR ''-'')]"

definition display_menu :: "string \<Rightarrow> 'db shell \<Rightarrow> 'db shell" where
  "display_menu title st = fold py_print (menu_lines title) st"

subsection \<open>The menu loop of \<^verbatim>\<open>15_sqlite.py\<close>\<close>

text \<open>
  What the world supplies during one pass of the loop: the store's clock and the faults of
  the (at most two) statements the pass runs.
\<close>

record sqlite_env =
  se_now :: string
  se_fault1 :: fault
  se_fault2 :: fault

text \<open>
  Each branch follows the \<^verbatim>\<open>try\<close> block of the source: \<^verbatim>\<open>except ValueError\<close> catches
  the failure of \<^verbatim>\<open>int\<close> and any \<^verbatim>\<open>ValueError\<close> out of the repository call; every
  other exception leaves \<^verbatim>\<open>main\<close> and ends the program (\<open>Inl\<close>).
\<close>

definition sqlite_choice1 :: "sqlite_env \<Rightarrow> sqlite_db shell \<Rightarrow> exn + sqlite_db shell" where
  "sqlite_choice1 env st0 =
     (case py_input ''Enter name: '' (py_print (nl # ''--- Create New User ---'') st0) of
        Inl e \<Rightarrow> Inl e
      | Inr (name, st1) \<Rightarrow>
     (case py_input ''Enter email: '' st1 of
        Inl e \<Rightarrow> Inl e
      | Inr (email, st2) \<Rightarrow>
     (case py_input ''Enter age: '' st2 of
        Inl e \<Rightarrow> Inl e
      | Inr (line, st3) \<Rightarrow>
     (case py_int (strip line) of
        None \<Rightarrow> Inr (py_print ''Invalid age. Please enter a number.'' st3)
      | Some age \<Rightarrow>
     (case sqlite_create_user (se_fault1 env) (se_now env) (sh_db st3)
             (strip name) (strip email) age of
        (Inl e, printed, db') \<Rightarrow>
          if is_ValueError e
          then Inr (py_print ''Invalid age. Please enter a number.'' (after_call db' printed st3))
          else Inl e
      | (Inr user_id, printed, db') \<Rightarrow>
          Inr (py_print
                (case user_id of
                   None \<Rightarrow> ''Failed to create user''
                 | Some i \<Rightarrow>
                     if i \<noteq> 0 then ''User created successfully! ID: '' @ str_int i
                     else ''Failed to create user'')
                (after_call db' printed st3)))))))"

definition sqlite_choice2 :: "sqlite_env \<Rightarrow> sqlite_db shell \<Rightarrow> exn + sqlite_db shell" where
  "sqlite_choice2 env st0 =
     (let st1 = py_print (nl # ''--- All Users ---'') st0 in
      case sqlite_get_all_users (se_fault1 env) (sh_db st1) of
        (Inl e, printed, db') \<Rightarrow> Inl e
      | (Inr us, printed, db') \<Rightarrow>
          Inr (if us \<noteq> []
               then fold (\<lambda>user. py_print
                       (''ID: '' @ str_int (u_id user) @ '' | Name: '' @ u_name user @
                        '' | Email: '' @ u_email user @ '' | Age: '' @ str_int (u_age user)))
                      us (after_call db' printed st1)
               else py_print ''No users found.'' (after_call db' printed st1)))"

definition sqlite_choice3 :: "sqlite_env \<Rightarrow> sqlite_db shell \<Rightarrow> exn + sqlite_db shell" where
  "sqlite_choice3 env st0 =
     (case py_input ''Enter user ID: '' (py_print (nl # ''--- Create New Post ---'') st0) of
        Inl e \<Rightarrow> Inl e
      | Inr (line, st1) \<Rightarrow>
     (case py_int (strip line) of
        None \<Rightarrow> Inr (py_print ''Invalid user ID. Please enter a number'' st1)
      | Some user_id \<Rightarrow>
     (case py_input ''Enter post title: '' st1 of
        Inl e \<Rightarrow> Inl e
      | Inr (title, st2) \<Rightarrow>
     (case py_input ''Enter post content: '' st2 of
        Inl e \<Rightarrow> Inl e
      | Inr (content, st3) \<Rightarrow>
     (case sqlite_create_post (se_fault1 env) (se_now env) (sh_db st3)
             user_id (strip title) (strip content) of
        (Inl e, printed, db') \<Rightarrow>
          if is_ValueError e
          then Inr (py_print ''Invalid user ID. Please enter a number'' (after_call db' printed st3))
          else Inl e
      | (Inr post_id, printed, db') \<Rightarrow>
          Inr (py_print
                (if post_id \<noteq> 0 then ''Post created successfully! ID: '' @ str_int post_id
                 else ''Failed to create post'')
                (after_call db' printed st3)))))))"

definition sqlite_choice4 :: "sqlite_env \<Rightarrow> sqlite_db shell \<Rightarrow> exn + sqlite_db shell" where
  "sqlite_choice4 env st0 =
     (case py_input ''Enter user ID: '' (py_print (nl # ''--- View User Posts ---'') st0) of
        Inl e \<Rightarrow> Inl e
      | Inr (line, st1) \<Rightarrow>
     (case py_int (strip line) of
        None \<Rightarrow> Inr (py_print ''Invalid user ID. Please enter a number.'' st1)
      | Some user_id \<Rightarrow>
     (case sqlite_get_user_posts (se_fault1 env) (sh_db st1) user_id of
        (Inl e, printed, db') \<Rightarrow>
          if is_ValueError e
          then Inr (py_print ''Invalid user ID. Please enter a number.'' (after_call db' printed st1))
          else Inl e
      | (Inr ps, printed, db') \<Rightarrow>
          Inr (if ps \<noteq> []
               then fold (\<lambda>(pid, title, content, created). fold py_print
                       [nl # ''Post ID: '' @ str_int pid,
                        ''Title: '' @ title,
                        ''Content: '' @ content,
                        ''Created: '' @ created,
                        replicate 30 (CHR ''-'')])
                      ps (after_call db' printed st1)
               else py_print ''No posts found for this user.'' (after_call db' printed st1)))))"

definition sqlite_choice5 :: "sqlite_env \<Rightarrow> sqlite_db shell \<Rightarrow> exn + sqlite_db shell" where
  "sqlite_choice5 env st0 =
     (case py_input ''Enter user ID to delete: '' (py_print (nl # ''--- Delete User ---'') st0) of
        Inl e \<Rightarrow> Inl e
      | Inr (line, st1) \<Rightarrow>
     (case py_int (strip line) of
        None \<Rightarrow> Inr (py_print ''Invalid user ID. Please enter a number.'' st1)
      | Some user_id \<Rightarrow>
     (case py_input (''Are you sure you want to delete user '' @ str_int user_id @ ''? (y/n)'') st1 of
        Inl e \<Rightarrow> Inl e
      | Inr (confirm, st2) \<Rightarrow>
          if lower (strip confirm) = ''y'' then
            (case sqlite_delete_user (se_fault1 env) (se_fault2 env) (sh_db st2) user_id of
               (Inl e, printed, db') \<Rightarrow>
                 if is_ValueError e
                 then Inr (py_print ''Invalid user ID. Please enter a number.''
                             (after_call db' printed st2))
                 else Inl e
             | (Inr deleted, printed, db') \<Rightarrow>
                 Inr (py_print
                       (if deleted then ''User deleted successfully!''
                        else ''User not found or deletion failed.'')
                       (after_call db' printed st2)))
          else Inr (py_print ''Deletion cancelled'' st2))))"

definition sqlite_iteration ::
  "sqlite_env \<Rightarrow> sqlite_db shell \<Rightarrow> exn + sqlite_db shell flow" where
  "sqlite_iteration env st0 =
     (case py_input ''Enter your choice (1-6): '' (display_menu '' DATABASE MANAGER '' st0) of
        Inl e \<Rightarrow> Inl e
      | Inr (line, st1) \<Rightarrow>
          let choice = strip line in
          if choice = ''6'' then Inr (Break (py_print (nl # ''Goodbye!'') st1))
          else
            (case (if choice = ''1'' then sqlite_choice1 env st1
                   else if choice = ''2'' then sqlite_choice2 env st1
                   else if choice = ''3'' then sqlite_choice3 env st1
                   else if choice = ''4'' then sqlite_choice4 env st1
                   else if choice = ''5'' then sqlite_choice5 env st1
                   else Inr (py_print ''Invalid choice. Please enter 1-6'' st1)) of
               Inl e \<Rightarrow> Inl e
             | Inr st2 \<Rightarrow>
                 (case py_input (nl # ''Press Enter to continue'') st2 of
                    Inl e \<Rightarrow> Inl e
                  | Inr (line', st3) \<Rightarrow> Inr (Continue st3))))"


text \<open>
  \<^verbatim>\<open>while True\<close>: every pass reads at least the menu choice, so the loop ends with the
  input at the latest (by \<^verbatim>\<open>EOFError\<close>). \<open>envs i\<close> is what the world supplies during
  pass \<open>i\<close>.
\<close>

lemma py_input_stdin:
  "py_input prompt st = Inr (line, st') \<Longrightarrow> length (stdin st') < length (stdin st)"
  by (auto simp: py_input_def split: list.splits)

lemma py_print_stdin [simp]: "stdin (py_print s st) = stdin st"
  by (simp add: py_print_def)

lemma fold_print_stdin [simp]: "stdin (fold (\<lambda>x. py_print (f x)) xs st) = stdin st"
  by (induction xs arbitrary: st) auto

lemma fold_py_print_stdin [simp]: "stdin (fold py_print ls st) = stdin st"
  by (induction ls arbitrary: st) auto

lemma fold_stdin:
  assumes "\<And>x s. stdin (g x s) = stdin s"
  shows "stdin (fold g xs st) = stdin st"
  by (induction xs arbitrary: st) (auto simp: assms)

lemma display_menu_stdin [simp]: "stdin (display_menu title st) = stdin st"
  unfolding display_menu_def by (rule fold_py_print_stdin)

lemma after_call_stdin [simp]: "stdin (after_call db' printed st) = stdin st"
  by (simp add: after_call_def)

lemma sqlite_choice1_stdin:
  "sqlite_choice1 env st = Inr st' \<Longrightarrow> length (stdin st') \<le> length (stdin st)"
  unfolding sqlite_choice1_def
  by (auto split: sum.splits option.splits prod.splits if_splits dest!: py_input_stdin)

lemma sqlite_choice2_stdin:
  "sqlite_choice2 env st = Inr st' \<Longrightarrow> length (stdin st') \<le> length (stdin st)"
  unfolding sqlite_choice2_def Let_def
  by (auto split: sum.splits option.splits prod.splits if_splits)

lemma sqlite_choice3_stdin:
  "sqlite_choice3 env st = Inr st' \<Longrightarrow> length (stdin st') \<le> length (stdin st)"
  unfolding sqlite_choice3_def
  by (auto split: sum.splits option.splits prod.splits if_splits dest!: py_input_stdin)

lemma sqlite_choice4_stdin:
  "sqlite_choice4 env st = Inr st' \<Longrightarrow> length (stdin st') \<le> length (stdin st)"
  unfolding sqlite_choice4_def
  by (auto simp: fold_stdin case_prod_unfold split: sum.splits option.splits prod.splits if_splits
      dest!: py_input_stdin)

lemma sqlite_choice5_stdin:
  "sqlite_choice5 env st = Inr st' \<Longrightarrow> length (stdin st') \<le> length (stdin st)"
  unfolding sqlite_choice5_def
  by (auto split: sum.splits option.splits prod.splits if_splits dest!: py_input_stdin)

lemma sqlite_iteration_stdin:
  assumes "sqlite_iteration env st = Inr (Continue st')"
  shows "length (stdin st') < length (stdin st)"
proof -
  obtain line st1 where
    a: "py_input ''Enter your choice (1-6): '' (display_menu '' DATABASE MANAGER '' st) = Inr (line, st1)"
    using assms by (auto simp: sqlite_iteration_def split: sum.splits)
  have s1: "length (stdin st1) < length (stdin st)"
    using py_input_stdin [OF a] by simp
  obtain st2 line' where
    b: "py_input (nl # ''Press Enter to continue'') st2 = Inr (line', st')"
    and c: "length (stdin st2) \<le> length (stdin st1)"
    using assms a
    by (auto simp: sqlite_iteration_def Let_def split: sum.splits if_splits
        dest: sqlite_choice1_stdin sqlite_choice2_stdin sqlite_choice3_stdin
          sqlite_choice4_stdin sqlite_choice5_stdin)
  show ?thesis
    using py_input_stdin [OF b] c s1 by simp
qed

function sqlite_main_loop ::
  "(nat \<Rightarrow> sqlite_env) \<Rightarrow> nat \<Rightarrow> sqlite_db shell \<Rightarrow> exn + sqlite_db shell" where
  "sqlite_main_loop envs i st =
     (case sqlite_iteration (envs i) st of
        Inl e \<Rightarrow> Inl e
      | Inr (Break st') \<Rightarrow> Inr st'
      | Inr (Continue st') \<Rightarrow> sqlite_main_loop envs (Suc i) st')"
  by pat_completeness auto
termination
  by (relation "measure (\<lambda>(envs, i, st). length (stdin st))")
    (auto dest: sqlite_iteration_stdin)

text \<open>
  \<^verbatim>\<open>main\<close>: \<^verbatim>\<open>DatabaseManager()\<close> opens the file with what it holds (\<^verbatim>\<open>CREATE TABLE IF
  NOT EXISTS\<close> keeps existing tables), then the loop runs.
\<close>

definition sqlite_main ::
  "(nat \<Rightarrow> sqlite_env) \<Rightarrow> sqlite_db option \<Rightarrow> string list \<Rightarrow> exn + sqlite_db shell" where
  "sqlite_main envs file inputs =
     sqlite_main_loop envs 0 \<lparr>sh_db = init_database file, stdin = inputs, stdout = []\<rparr>"

subsection \<open>The menu loop of \<^verbatim>\<open>16_mongo.py\<close>\<close>

text \<open>
  Here only the age is read with \<^verbatim>\<open>int\<close>; a user id is a string and goes to the
  repository as typed. \<open>str_datetime\<close> is \<^verbatim>\<open>str\<close> on a \<^verbatim>\<open>datetime\<close>, a library function.
\<close>

record mongo_env =
  me_now :: int
  me_oid :: objectid
  me_fault1 :: fault
  me_fault2 :: fault

definition mongo_choice1 :: "mongo_env \<Rightarrow> mongo_db shell \<Rightarrow> exn + mongo_db shell" where
  "mongo_choice1 env st0 =
     (case py_input ''Enter name: '' (py_print (nl # ''--- Create New User ---'') st0) of
        Inl e \<Rightarrow> Inl e
      | Inr (name, st1) \<Rightarrow>
     (case py_input ''Enter email: '' st1 of
        Inl e \<Rightarrow> Inl e
      | Inr (email, st2) \<Rightarrow>
     (case py_input ''Enter age: '' st2 of
        Inl e \<Rightarrow> Inl e
      | Inr (line, st3) \<Rightarrow>
     (case py_int (strip line) of
        None \<Rightarrow> Inr (py_print ''Invalid age. Please enter a number.'' st3)
      | Some age \<Rightarrow>
     (case mongo_create_user (me_fault1 env) (me_now env) (me_oid env) (sh_db st3)
             (strip name) (strip email) age of
        (Inl e, printed, db') \<Rightarrow>
          if is_ValueError e
          then Inr (py_print ''Invalid age. Please enter a number.'' (after_call db' printed st3))
          else Inl e
      | (Inr user_id, printed, db') \<Rightarrow>
          Inr (py_print
                (case user_id of
                   None \<Rightarrow> ''Failed to create user''
                 | Some s \<Rightarrow>
                     if s \<noteq> [] then ''User created successfully! ID: '' @ s
                     else ''Failed to create user'')
                (after_call db' printed st3)))))))"

definition mongo_choice2 :: "mongo_env \<Rightarrow> mongo_db shell \<Rightarrow> exn + mongo_db shell" where
  "mongo_choice2 env st0 =
     (let st1 = py_print (nl # ''--- All Users ---'') st0 in
      case mongo_get_all_users (me_fault1 env) (sh_db st1) of
        (Inl e, printed, db') \<Rightarrow> Inl e
      | (Inr us, printed, db') \<Rightarrow>
          Inr (if us \<noteq> []
               then fold (\<lambda>user. py_print
                       (''ID: '' @ str_idval (ud_id user) @ '' | Name: '' @ ud_name user @
                        '' | Email: '' @ ud_email user @ '' | Age: '' @ str_int (ud_age user)))
                      us (after_call db' printed st1)
               else py_print ''No users found.'' (after_call db' printed st1)))"

definition mongo_choice3 :: "mongo_env \<Rightarrow> mongo_db shell \<Rightarrow> exn + mongo_db shell" where
  "mongo_choice3 env st0 =
     (case py_input ''Enter user ID: '' (py_print (nl # ''--- Create New Post ---'') st0) of
        Inl e \<Rightarrow> Inl e
      | Inr (user_id, st1) \<Rightarrow>
     (case py_input ''Enter post title: '' st1 of
        Inl e \<Rightarrow> Inl e
      | Inr (title, st2) \<Rightarrow>
     (case py_input ''Enter post content: '' st2 of
        Inl e \<Rightarrow> Inl e
      | Inr (content, st3) \<Rightarrow>
     (case mongo_create_post (me_fault1 env) (me_now env) (me_oid env) (sh_db st3)
             (strip user_id) (strip title) (strip content) of
        (Inl e, printed, db') \<Rightarrow> Inl e
      | (Inr post_id, printed, db') \<Rightarrow>
          Inr (py_print
                (case post_id of
                   None \<Rightarrow> ''Failed to create post''
                 | Some s \<Rightarrow>
                     if s \<noteq> [] then ''Post created successfully! ID: '' @ s
                     else ''Failed to create post'')
                (after_call db' printed st3))))))"

definition mongo_choice4 ::
  "(int \<Rightarrow> string) \<Rightarrow> mongo_env \<Rightarrow> mongo_db shell \<Rightarrow> exn + mongo_db shell" where
  "mongo_choice4 str_datetime env st0 =
     (case py_input ''Enter user ID: '' (py_print (nl # ''--- View User Posts ---'') st0) of
        Inl e \<Rightarrow> Inl e
      | Inr (user_id, st1) \<Rightarrow>
     (case mongo_get_user_posts (me_fault1 env) (sh_db st1) (strip user_id) of
        (Inl e, printed, db') \<Rightarrow> Inl e
      | (Inr ps, printed, db') \<Rightarrow>
          Inr (if ps \<noteq> []
               then fold (\<lambda>post. fold py_print
                       [nl # ''Post ID: '' @ str_idval (pd_id post),
                        ''Title: '' @ pd_title post,
                        ''Content: '' @ pd_content post,
                        ''Created: '' @ str_datetime (pd_created_at post),
                        replicate 30 (CHR ''-'')])
                      ps (after_call db' printed st1)
               else py_print ''No posts found for this user.'' (after_call db' printed st1))))"

definition mongo_choice5 :: "mongo_env \<Rightarrow> mongo_db shell \<Rightarrow> exn + mongo_db shell" where
  "mongo_choice5 env st0 =
     (case py_input ''Enter user ID to delete: '' (py_print (nl # ''--- Delete User ---'') st0) of
        Inl e \<Rightarrow> Inl e
      | Inr (line, st1) \<Rightarrow>
     (let user_id = strip line in
      case py_input (''Are you sure you want to delete user '' @ user_id @ ''? (y/n)'') st1 of
        Inl e \<Rightarrow> Inl e
      | Inr (confirm, st2) \<Rightarrow>
          if lower (strip confirm) = ''y'' then
            (case mongo_delete_user (me_fault1 env) (me_fault2 env) (sh_db st2) user_id of
               (Inl e, printed, db') \<Rightarrow> Inl e
             | (Inr deleted, printed, db') \<Rightarrow>
                 Inr (py_print
                       (if deleted then ''User deleted successfully!''
                        else ''User not found or deletion failed.'')
                       (after_call db' printed st2)))
          else Inr st2))"

definition mongo_iteration ::
  "(int \<Rightarrow> string) \<Rightarrow> mongo_env \<Rightarrow> mongo_db shell \<Rightarrow> exn + mongo_db shell flow" where
  "mongo_iteration str_datetime env st0 =
     (case py_input ''Enter your choice (1-6): '' (display_menu '' MONGODB MANAGER '' st0) of
        Inl e \<Rightarrow> Inl e
      | Inr (line, st1) \<Rightarrow>
          let choice = strip line in
          if choice = ''6'' then Inr (Break (py_print ''Goodbye!'' st1))
          else
            (case (if choice = ''1'' then mongo_choice1 env st1
                   else if choice = ''2'' then mongo_choice2 env st1
                   else if choice = ''3'' then mongo_choice3 env st1
                   else if choice = ''4'' then mongo_choice4 str_datetime env st1
                   else if choice = ''5'' then mongo_choice5 env st1
                   else Inr st1) of
               Inl e \<Rightarrow> Inl e
             | Inr st2 \<Rightarrow>
                 (case py_input (nl # ''Press Enter to continue'') st2 of
                    Inl e \<Rightarrow> Inl e
                  | Inr (line', st3) \<Rightarrow> Inr (Continue st3))))"

lemma mongo_choice1_stdin:
  "mongo_choice1 env st = Inr st' \<Longrightarrow> length (stdin st') \<le> length (stdin st)"
  unfolding mongo_choice1_def
  by (auto split: sum.splits option.splits prod.splits if_splits dest!: py_input_stdin)

lemma mongo_choice2_stdin:
  "mongo_choice2 env st = Inr st' \<Longrightarrow> length (stdin st') \<le> length (stdin st)"
  unfolding mongo_choice2_def Let_def
  by (auto split: sum.splits option.splits prod.splits if_splits)

lemma mongo_choice3_stdin:
  "mongo_choice3 env st = Inr st' \<Longrightarrow> length (stdin st') \<le> length (stdin st)"
  unfolding mongo_choice3_def
  by (auto split: sum.splits option.splits prod.splits if_splits dest!: py_input_stdin)

lemma mongo_choice4_stdin:
  "mongo_choice4 sd env st = Inr st' \<Longrightarrow> length (stdin st') \<le> length (stdin st)"
  unfolding mongo_choice4_def
  by (auto simp: fold_stdin split: sum.splits option.splits prod.splits if_splits dest!: py_input_stdin)

lemma mongo_choice5_stdin:
  "mongo_choice5 env st = Inr st' \<Longrightarrow> length (stdin st') \<le> length (stdin st)"
  unfolding mongo_choice5_def Let_def
  by (auto split: sum.splits option.splits prod.splits if_splits dest!: py_input_stdin)

lemma mongo_iteration_stdin:
  assumes "mongo_iteration sd env st = Inr (Continue st')"
  shows "length (stdin st') < length (stdin st)"
proof -
  obtain line st1 where
    a: "py_input ''Enter your choice (1-6): '' (display_menu '' MONGODB MANAGER '' st) = Inr (line, st1)"
    using assms by (auto simp: mongo_iteration_def split: sum.splits)
  have s1: "length (stdin st1) < length (stdin st)"
    using py_input_stdin [OF a] by simp
  obtain st2 line' where
    b: "py_input (nl # ''Press Enter to continue'') st2 = Inr (line', st')"
    and c: "length (stdin st2) \<le> length (stdin st1)"
    using assms a
    by (auto simp: mongo_iteration_def Let_def split: sum.splits if_splits
        dest: mongo_choice1_stdin mongo_choice2_stdin mongo_choice3_stdin
          mongo_choice4_stdin mongo_choice5_stdin)
  show ?thesis
    using py_input_stdin [OF b] c s1 by simp
qed

function mongo_main_loop ::
  "(int \<Rightarrow> string) \<Rightarrow> (nat \<Rightarrow> mongo_env) \<Rightarrow> nat \<Rightarrow> mongo_db shell \<Rightarrow> exn + mongo_db shell" where
  "mongo_main_loop str_datetime envs i st =
     (case mongo_iteration str_datetime (envs i) st of
        Inl e \<Rightarrow> Inl e
      | Inr (Break st') \<Rightarrow> Inr st'
      | Inr (Continue st') \<Rightarrow> mongo_main_loop str_datetime envs (Suc i) st')"
  by pat_completeness auto
termination
  by (relation "measure (\<lambda>(sd, envs, i, st). length (stdin st))")
    (auto dest: mongo_iteration_stdin)

text \<open>
  \<^verbatim>\<open>main\<close>: when \<^verbatim>\<open>DatabaseManager()\<close> raises (\<open>connect = Some e\<close>) the program reports
  it and returns; otherwise the loop runs on the database as the server holds it.
\<close>

definition mongo_main ::
  "(int \<Rightarrow> string) \<Rightarrow> fault \<Rightarrow> (nat \<Rightarrow> mongo_env) \<Rightarrow> mongo_db \<Rightarrow> string list
     \<Rightarrow> exn + mongo_db shell" where
  "mongo_main str_datetime connect envs db inputs =
     (let st = \<lparr>sh_db = db, stdin = inputs, stdout = []\<rparr> in
      case connect of
        Some e \<Rightarrow> Inr (py_print (''Failed to connect to MongoDB: '' @ str_exn e) st)
      | None \<Rightarrow>
          mongo_main_loop str_datetime envs 0 (py_print ''Connected to MongoDB Successfully!'' st))"


section \<open>Example data\<close>

text \<open>The example of the specification: the user Ada and her post, in both stores.\<close>

definition ada :: user_row where
  "ada = \<lparr>u_id = 1, u_name = ''Ada'', u_email = ''ada@example.com'', u_age = 30,
           u_created_at = ''2024-01-01 10:00:00''\<rparr>"

definition hello :: post_row where
  "hello = \<lparr>p_id = 1, p_user_id = 1, p_title = ''Hello'', p_content = ''World'',
             p_created_at = ''2024-01-01 10:00:05''\<rparr>"

definition oid1 :: objectid where
  "oid1 = OID ''65a000000000000000000001''"

definition oid2 :: objectid where
  "oid2 = OID ''65a000000000000000000002''"

definition ada_doc :: user_doc where
  "ada_doc = \<lparr>ud_id = Oid oid1, ud_name = ''Ada'', ud_email = ''ada@example.com'', ud_age = 30,
               ud_created_at = 1704103200000\<rparr>"

definition hello_doc :: post_doc where
  "hello_doc = \<lparr>pd_id = Oid oid2, pd_user_id = Oid oid1, pd_title = ''Hello'',
                 pd_content = ''World'', pd_created_at = 1704103205000\<rparr>"

section \<open>Sequences of calls\<close>

text \<open>
  A run of \<^verbatim>\<open>create_user\<close> calls on one store, each with what the world supplies to
  it; the results are kept in order. A call has succeeded when it returned an identifier.
\<close>

fun sqlite_create_users ::
  "sqlite_db \<Rightarrow> (fault \<times> string \<times> string \<times> string \<times> int) list
     \<Rightarrow> (exn + int option) list \<times> sqlite_db" where
  "sqlite_create_users db [] = ([], db)"
| "sqlite_create_users db ((fault, now, name, email, age) # calls) =
     (case sqlite_create_user fault now db name email age of
        (r, printed, db') \<Rightarrow>
          (case sqlite_create_users db' calls of (rs, db'') \<Rightarrow> (r # rs, db'')))"

fun mongo_create_users ::
  "mongo_db \<Rightarrow> (fault \<times> int \<times> objectid \<times> string \<times> string \<times> int) list
     \<Rightarrow> (exn + string option) list \<times> mongo_db" where
  "mongo_create_users db [] = ([], db)"
| "mongo_create_users db ((fault, now, oid, name, email, age) # calls) =
     (case mongo_create_user fault now oid db name email age of
        (r, printed, db') \<Rightarrow>
          (case mongo_create_users db' calls of (rs, db'') \<Rightarrow> (r # rs, db'')))"

fun created :: "exn + 'a option \<Rightarrow> bool" where
  "created (Inr (Some i)) = True"
| "created r = False"

section \<open>Verification\<close>

subsection \<open>Basic facts\<close>

text \<open>The example data, and what printing does to the terminal.\<close>

lemma is_valid_oid1: "is_valid ''65a000000000000000000001''"
  by (simp add: is_valid_def is_hexdigit_def)

lemma ObjectId_oid1: "ObjectId ''65a000000000000000000001'' = oid1"
  by (simp add: ObjectId_def oid1_def lower_def lower_char_def)

lemma normalize_oid1:
  "Oid oid1 = (if is_valid ''65a000000000000000000001''
               then Oid (ObjectId ''65a000000000000000000001'')
               else Str ''65a000000000000000000001'')"
  by (simp add: is_valid_oid1 ObjectId_oid1)

lemma example_fields:
  "u_id ada = 1" "u_email ada = ''ada@example.com''"
  "p_user_id hello = 1" "p_id hello = 1"
  "ud_id ada_doc = Oid oid1" "ud_email ada_doc = ''ada@example.com''"
  "pd_user_id hello_doc = Oid oid1" "pd_id hello_doc = Oid oid2"
  by (simp_all add: ada_def hello_def ada_doc_def hello_doc_def)

lemma fold_py_print_eq: "fold py_print ls st = st\<lparr>stdout := stdout st @ ls\<rparr>"
  by (induction ls arbitrary: st) (simp_all add: py_print_def)

lemma display_menu_eq: "display_menu title st = st\<lparr>stdout := stdout st @ menu_lines title\<rparr>"
  by (simp add: display_menu_def fold_py_print_eq)

subsection \<open>Deleting a user\<close>

lemma filter_users_absent:
  "user_id \<notin> set (map u_id us) \<Longrightarrow> filter (\<lambda>u. u_id u \<noteq> user_id) us = us"
  by (induction us) auto

lemma count_users_absent:
  "user_id \<notin> set (map u_id us) \<Longrightarrow> length (filter (\<lambda>u. u_id u = user_id) us) = 0"
  by (induction us) auto

text \<open>
  C9. In the relational variant, for an identifier that matches no stored user (and that
  the store can hold, with both statements running), \<^verbatim>\<open>delete_user\<close> returns
  \<^verbatim>\<open>False\<close>, prints nothing, leaves the users as they are and removes every post whose
  \<^verbatim>\<open>user_id\<close> is that identifier: the result is the row count of the second statement
  alone.
\<close>

theorem sqlite_delete_user_orphans:
  assumes "user_id \<notin> set (map u_id (users db))" and "int64 user_id"
  shows "sqlite_delete_user None None db user_id =
           (Inr False, [],
            db\<lparr>posts := filter (\<lambda>p. p_user_id p \<noteq> user_id) (posts db)\<rparr>)"
  using assms
  by (simp add: sqlite_delete_user_def sql_delete_posts_def sql_delete_user_def
      filter_users_absent count_users_absent)

theorem sqlite_delete_user_orphans_witness:
  "sqlite_delete_user None None
     \<lparr>users = [], posts = [\<lparr>p_id = 1, p_user_id = 7, p_title = ''t'', p_content = ''c'',
         p_created_at = ''2024-01-01 10:00:00''\<rparr>], users_seq = 0, posts_seq = 1\<rparr> 7 =
   (Inr False, [], \<lparr>users = [], posts = [], users_seq = 0, posts_seq = 1\<rparr>)"
  using sqlite_delete_user_orphans [of 7
     "\<lparr>users = [], posts = [\<lparr>p_id = 1, p_user_id = 7, p_title = ''t'', p_content = ''c'',
         p_created_at = ''2024-01-01 10:00:00''\<rparr>], users_seq = 0, posts_seq = 1\<rparr>"]
  by (simp add: int64_def)

lemma count_users_pos:
  "(filter (\<lambda>u. u_id u = user_id) us \<noteq> []) = (user_id \<in> set (map u_id us))"
  by (auto simp: filter_empty_conv)

lemma sqlite_delete_user_ok:
  assumes "int64 user_id"
  shows "sqlite_delete_user None None db user_id =
           (Inr (user_id \<in> set (map u_id (users db))), [],
            db\<lparr>posts := filter (\<lambda>p. p_user_id p \<noteq> user_id) (posts db),
               users := filter (\<lambda>u. u_id u \<noteq> user_id) (users db)\<rparr>)"
  using assms
  by (simp add: sqlite_delete_user_def sql_delete_posts_def sql_delete_user_def count_users_pos)

lemma delete_first_count:
  "(0 < fst (delete_first P xs)) = (\<exists>x \<in> set xs. P x)"
  by (induction xs) (auto split: prod.splits)

text \<open>With unique keys, removing the first match removes every match.\<close>

lemma delete_first_distinct:
  "distinct (map f xs) \<Longrightarrow> snd (delete_first (\<lambda>x. f x = k) xs) = filter (\<lambda>x. f x \<noteq> k) xs"
proof (induction xs)
  case Nil
  then show ?case by simp
next
  case (Cons x xs)
  show ?case
  proof (cases "f x = k")
    case True
    with Cons.prems have "\<forall>y \<in> set xs. f y \<noteq> k" by (auto simp: image_iff)
    then have "filter (\<lambda>x. f x \<noteq> k) xs = xs" by (simp add: filter_id_conv)
    with True show ?thesis by simp
  next
    case False
    with Cons show ?thesis by (auto split: prod.splits)
  qed
qed

lemma mongo_delete_user_ok:
  assumes "distinct (map ud_id (users_collection db))"
    and "k = (if is_valid user_id then Oid (ObjectId user_id) else Str user_id)"
  shows "mongo_delete_user None None db user_id =
           (Inr (k \<in> set (map ud_id (users_collection db))), [],
            db\<lparr>posts_collection := filter (\<lambda>p. pd_user_id p \<noteq> k) (posts_collection db),
               users_collection := filter (\<lambda>u. ud_id u \<noteq> k) (users_collection db)\<rparr>)"
proof -
  obtain n us where d: "delete_first (\<lambda>u. ud_id u = k) (users_collection db) = (n, us)"
    by (cases "delete_first (\<lambda>u. ud_id u = k) (users_collection db)")
  have "us = filter (\<lambda>u. ud_id u \<noteq> k) (users_collection db)"
    using delete_first_distinct [OF assms(1), of k] d by simp
  moreover have "(0 < n) = (k \<in> set (map ud_id (users_collection db)))"
    using delete_first_count [of "\<lambda>u. ud_id u = k" "users_collection db"] d by auto
  ultimately show ?thesis
    using d assms(2)
    by (simp add: mongo_delete_user_def posts_delete_many_def users_delete_one_def Let_def)
qed

lemma mongo_delete_user_posts_first:
  assumes "k = (if is_valid user_id then Oid (ObjectId user_id) else Str user_id)"
  shows "mongo_delete_user None (Some e) db user_id =
           (Inr False, [''Error deleting user: '' @ str_exn e],
            db\<lparr>posts_collection := filter (\<lambda>p. pd_user_id p \<noteq> k) (posts_collection db)\<rparr>)"
  using assms
  by (simp add: mongo_delete_user_def posts_delete_many_def users_delete_one_def Let_def)

text \<open>
  C1. \<^verbatim>\<open>delete_user\<close> removes the posts whose owner is the identifier, then the user, and
  returns whether a user carried the identifier. Relational variant: for an identifier the
  store can hold, both statements running. Document variant: \<open>k\<close> is the identifier as the
  method normalizes it, and \<^verbatim>\<open>_id\<close> is unique as the store keeps it; when the second
  request fails, the posts are gone already and the users are untouched, which shows the
  order of the two deletions.
\<close>

theorem delete_user_cascade:
  assumes "int64 user_id"
    and "distinct (map ud_id (users_collection mdb))"
    and "k = (if is_valid uid then Oid (ObjectId uid) else Str uid)"
  shows "sqlite_delete_user None None db user_id =
           (Inr (user_id \<in> set (map u_id (users db))), [],
            db\<lparr>posts := filter (\<lambda>p. p_user_id p \<noteq> user_id) (posts db),
               users := filter (\<lambda>u. u_id u \<noteq> user_id) (users db)\<rparr>)
       \<and> mongo_delete_user None None mdb uid =
           (Inr (k \<in> set (map ud_id (users_collection mdb))), [],
            mdb\<lparr>posts_collection := filter (\<lambda>p. pd_user_id p \<noteq> k) (posts_collection mdb),
                users_collection := filter (\<lambda>u. ud_id u \<noteq> k) (users_collection mdb)\<rparr>)
       \<and> mongo_delete_user None (Some e) mdb uid =
           (Inr False, [''Error deleting user: '' @ str_exn e],
            mdb\<lparr>posts_collection := filter (\<lambda>p. pd_user_id p \<noteq> k) (posts_collection mdb)\<rparr>)"
  using sqlite_delete_user_ok [OF assms(1)] mongo_delete_user_ok [OF assms(2,3)]
    mongo_delete_user_posts_first [OF assms(3)]
  by simp

theorem delete_user_cascade_witness:
  "sqlite_delete_user None None
      \<lparr>users = [ada], posts = [hello], users_seq = 1, posts_seq = 1\<rparr> 1 =
     (Inr True, [], \<lparr>users = [], posts = [], users_seq = 1, posts_seq = 1\<rparr>)
   \<and> mongo_delete_user None None
      \<lparr>users_collection = [ada_doc], posts_collection = [hello_doc]\<rparr>
      ''65a000000000000000000001'' =
     (Inr True, [], \<lparr>users_collection = [], posts_collection = []\<rparr>)
   \<and> mongo_delete_user None (Some (PyMongoError ''timed out''))
      \<lparr>users_collection = [ada_doc], posts_collection = [hello_doc]\<rparr>
      ''65a000000000000000000001'' =
     (Inr False, [''Error deleting user: timed out''],
      \<lparr>users_collection = [ada_doc], posts_collection = []\<rparr>)"
proof -
  have h1: "int64 1"
    by (simp add: int64_def)
  have h2: "distinct (map ud_id (users_collection
              \<lparr>users_collection = [ada_doc], posts_collection = [hello_doc]\<rparr>))"
    by simp
  show ?thesis
    using delete_user_cascade [OF h1 h2 normalize_oid1,
        of "\<lparr>users = [ada], posts = [hello], users_seq = 1, posts_seq = 1\<rparr>"
           "PyMongoError ''timed out''"]
    by (simp add: example_fields)
qed

subsection \<open>Creating a user\<close>

text \<open>
  C2. When a stored user has the email, \<^verbatim>\<open>create_user\<close> returns \<^verbatim>\<open>None\<close>, prints the
  error and leaves the store as it was. Relational variant: for an age the store can hold,
  the statement running (the method catches \<^verbatim>\<open>IntegrityError\<close> alone). Document variant:
  whatever else happens.
\<close>

theorem create_user_duplicate_email:
  assumes "email \<in> set (map u_email (users db))"
    and "int64 age"
    and "email' \<in> set (map ud_email (users_collection mdb))"
  shows "sqlite_create_user None now db name email age =
           (Inr None, [''Error: UNIQUE constraint failed: users.email''], db)
       \<and> (\<exists>msg. mongo_create_user fault now' oid mdb name' email' age' =
             (Inr None, [''Error: '' @ msg], mdb))"
  using assms
  by (simp add: sqlite_create_user_def sql_insert_user_def mongo_create_user_def
      users_insert_one_def split: option.splits)

theorem create_user_duplicate_email_witness:
  "sqlite_create_user None ''2024-01-02 09:00:00''
      \<lparr>users = [ada], posts = [], users_seq = 1, posts_seq = 0\<rparr>
      ''Eve'' ''ada@example.com'' 41 =
     (Inr None, [''Error: UNIQUE constraint failed: users.email''],
      \<lparr>users = [ada], posts = [], users_seq = 1, posts_seq = 0\<rparr>)
   \<and> (\<exists>msg. mongo_create_user None 1704186000000 oid2
      \<lparr>users_collection = [ada_doc], posts_collection = []\<rparr>
      ''Eve'' ''ada@example.com'' 41 =
     (Inr None, [''Error: '' @ msg],
      \<lparr>users_collection = [ada_doc], posts_collection = []\<rparr>))"
proof -
  have h1: "''ada@example.com'' \<in> set (map u_email
      (users \<lparr>users = [ada], posts = [], users_seq = 1, posts_seq = 0\<rparr>))"
    by (simp add: example_fields)
  have h2: "int64 41"
    by (simp add: int64_def)
  have h3: "''ada@example.com'' \<in> set (map ud_email
      (users_collection \<lparr>users_collection = [ada_doc], posts_collection = []\<rparr>))"
    by (simp add: example_fields)
  show ?thesis
    by (rule create_user_duplicate_email [OF h1 h2 h3])
qed

subsection \<open>Deleting an identifier that no user carries\<close>

lemma delete_first_none:
  "\<forall>x \<in> set xs. \<not> P x \<Longrightarrow> delete_first P xs = (0, xs)"
  by (induction xs) auto

text \<open>
  C4, as the code has it. For an identifier that no stored user carries, \<^verbatim>\<open>delete_user\<close>
  returns \<^verbatim>\<open>False\<close> and leaves the users as they are; it still removes the posts whose
  owner is that identifier, so the store is unchanged exactly when there is no such post.
\<close>

theorem delete_user_absent:
  assumes "user_id \<notin> set (map u_id (users db))"
    and "int64 user_id"
    and "k = (if is_valid uid then Oid (ObjectId uid) else Str uid)"
    and "k \<notin> set (map ud_id (users_collection mdb))"
  shows "sqlite_delete_user None None db user_id =
           (Inr False, [], db\<lparr>posts := filter (\<lambda>p. p_user_id p \<noteq> user_id) (posts db)\<rparr>)
       \<and> (user_id \<notin> set (map p_user_id (posts db)) \<longrightarrow>
             sqlite_delete_user None None db user_id = (Inr False, [], db))
       \<and> mongo_delete_user None None mdb uid =
           (Inr False, [],
            mdb\<lparr>posts_collection := filter (\<lambda>p. pd_user_id p \<noteq> k) (posts_collection mdb)\<rparr>)
       \<and> (k \<notin> set (map pd_user_id (posts_collection mdb)) \<longrightarrow>
             mongo_delete_user None None mdb uid = (Inr False, [], mdb))"
proof -
  have s: "sqlite_delete_user None None db user_id =
      (Inr False, [], db\<lparr>posts := filter (\<lambda>p. p_user_id p \<noteq> user_id) (posts db)\<rparr>)"
    using assms(1,2)
    by (simp add: sqlite_delete_user_def sql_delete_posts_def sql_delete_user_def
        filter_users_absent count_users_absent)
  have d: "delete_first (\<lambda>u. ud_id u = k) (users_collection mdb) = (0, users_collection mdb)"
    using assms(4) by (intro delete_first_none) auto
  have m: "mongo_delete_user None None mdb uid =
      (Inr False, [],
       mdb\<lparr>posts_collection := filter (\<lambda>p. pd_user_id p \<noteq> k) (posts_collection mdb)\<rparr>)"
    using assms(3) d
    by (simp add: mongo_delete_user_def posts_delete_many_def users_delete_one_def Let_def)
  have s': "filter (\<lambda>p. p_user_id p \<noteq> user_id) (posts db) = posts db"
    if "user_id \<notin> set (map p_user_id (posts db))"
    using that by (auto simp: filter_id_conv)
  have m': "filter (\<lambda>p. pd_user_id p \<noteq> k) (posts_collection mdb) = posts_collection mdb"
    if "k \<notin> set (map pd_user_id (posts_collection mdb))"
    using that by (auto simp: filter_id_conv)
  show ?thesis
    using s m s' m' by simp
qed

theorem delete_user_absent_witness:
  "sqlite_delete_user None None
      \<lparr>users = [ada], posts = [hello\<lparr>p_user_id := 7\<rparr>, hello\<lparr>p_id := 2\<rparr>],
        users_seq = 1, posts_seq = 2\<rparr> 7 =
     (Inr False, [],
      \<lparr>users = [ada], posts = [hello\<lparr>p_id := 2\<rparr>], users_seq = 1, posts_seq = 2\<rparr>)
   \<and> sqlite_delete_user None None
      \<lparr>users = [ada], posts = [hello], users_seq = 1, posts_seq = 1\<rparr> 7 =
     (Inr False, [], \<lparr>users = [ada], posts = [hello], users_seq = 1, posts_seq = 1\<rparr>)
   \<and> mongo_delete_user None None
      \<lparr>users_collection = [ada_doc],
        posts_collection = [hello_doc\<lparr>pd_user_id := Str ''7''\<rparr>, hello_doc]\<rparr> ''7'' =
     (Inr False, [], \<lparr>users_collection = [ada_doc], posts_collection = [hello_doc]\<rparr>)
   \<and> mongo_delete_user None None
      \<lparr>users_collection = [ada_doc], posts_collection = [hello_doc]\<rparr> ''7'' =
     (Inr False, [], \<lparr>users_collection = [ada_doc], posts_collection = [hello_doc]\<rparr>)"
proof -
  have v: "Str ''7'' = (if is_valid ''7'' then Oid (ObjectId ''7'') else Str ''7'')"
    by (simp add: is_valid_def)
  have i: "int64 7"
    by (simp add: int64_def)
  have a: "7 \<notin> set (map u_id (users
      \<lparr>users = [ada], posts = [hello\<lparr>p_user_id := 7\<rparr>, hello\<lparr>p_id := 2\<rparr>],
        users_seq = 1, posts_seq = 2\<rparr>))"
    by (simp add: example_fields)
  have b: "7 \<notin> set (map u_id (users
      \<lparr>users = [ada], posts = [hello], users_seq = 1, posts_seq = 1\<rparr>))"
    by (simp add: example_fields)
  have c: "Str ''7'' \<notin> set (map ud_id (users_collection
      \<lparr>users_collection = [ada_doc],
        posts_collection = [hello_doc\<lparr>pd_user_id := Str ''7''\<rparr>, hello_doc]\<rparr>))"
    by (simp add: example_fields)
  have d: "Str ''7'' \<notin> set (map ud_id (users_collection
      \<lparr>users_collection = [ada_doc], posts_collection = [hello_doc]\<rparr>))"
    by (simp add: example_fields)
  show ?thesis
    using delete_user_absent [OF a i v c] delete_user_absent [OF b i v d]
    by (simp add: example_fields)
qed

text \<open>
  The claim as written fails: after \<^verbatim>\<open>create_post(7, 't', 'c')\<close> on a new database,
  no user has id 7, \<^verbatim>\<open>delete_user(7)\<close> returns \<^verbatim>\<open>False\<close>, and the post is gone.
\<close>

theorem delete_user_absent_changes_store:
  "sqlite_create_post None ''2024-01-01 10:00:00'' empty_db 7 ''t'' ''c'' =
     (Inr 1, [],
      \<lparr>users = [],
        posts = [\<lparr>p_id = 1, p_user_id = 7, p_title = ''t'', p_content = ''c'',
                  p_created_at = ''2024-01-01 10:00:00''\<rparr>],
        users_seq = 0, posts_seq = 1\<rparr>)
   \<and> sqlite_delete_user None None
      \<lparr>users = [],
        posts = [\<lparr>p_id = 1, p_user_id = 7, p_title = ''t'', p_content = ''c'',
                  p_created_at = ''2024-01-01 10:00:00''\<rparr>],
        users_seq = 0, posts_seq = 1\<rparr> 7 =
     (Inr False, [], \<lparr>users = [], posts = [], users_seq = 0, posts_seq = 1\<rparr>)
   \<and> \<lparr>users = [], posts = [], users_seq = 0, posts_seq = 1\<rparr> \<noteq>
     \<lparr>users = [],
        posts = [\<lparr>p_id = 1, p_user_id = 7, p_title = ''t'', p_content = ''c'',
                  p_created_at = ''2024-01-01 10:00:00''\<rparr>],
        users_seq = 0, posts_seq = 1\<rparr>"
  by (simp add: sqlite_create_post_def sql_insert_post_def sqlite_delete_user_def
      sql_delete_posts_def sql_delete_user_def int64_def empty_db_def next_rowid_def)

subsection \<open>Listing the posts of a user\<close>

lemma sorted_desc_rev_sort_key:
  "sorted_wrt (\<lambda>a b. a \<ge> b) (map f (rev (sort_key f xs)))"
proof -
  have "sorted (map f (sort_key f xs))"
    by (rule sorted_sort_key)
  then have "sorted_wrt (\<lambda>a b. a \<ge> b) (rev (map f (sort_key f xs)))"
    by (simp add: sorted_wrt_rev)
  then show ?thesis
    by (simp add: rev_map)
qed

lemma sqlite_get_user_posts_ok:
  assumes "int64 user_id"
  shows "\<exists>rows. sqlite_get_user_posts None db user_id = (Inr rows, [], db)
       \<and> mset rows = mset (map (\<lambda>p. (p_id p, p_title p, p_content p, p_created_at p))
                             (filter (\<lambda>p. p_user_id p = user_id) (posts db)))
       \<and> sorted_wrt (\<lambda>a b. a \<ge> b) (map (\<lambda>(i, t, c, created). created) rows)"
proof -
  let ?sel = "rev (sort_key p_created_at (filter (\<lambda>p. p_user_id p = user_id) (posts db)))"
  let ?rows = "map (\<lambda>p. (p_id p, p_title p, p_content p, p_created_at p)) ?sel"
  have "sqlite_get_user_posts None db user_id = (Inr ?rows, [], db)"
    using assms by (simp add: sqlite_get_user_posts_def sql_select_user_posts_def)
  moreover have "mset ?rows =
      mset (map (\<lambda>p. (p_id p, p_title p, p_content p, p_created_at p))
             (filter (\<lambda>p. p_user_id p = user_id) (posts db)))"
    by simp
  moreover have "sorted_wrt (\<lambda>a b. a \<ge> b) (map (\<lambda>(i, t, c, created). created) ?rows)"
  proof -
    have e: "map (\<lambda>(i, t, c, created). created) ?rows = map p_created_at ?sel"
      by simp
    show ?thesis
      unfolding e by (rule sorted_desc_rev_sort_key)
  qed
  ultimately show ?thesis
    by blast
qed

lemma mongo_get_user_posts_ok:
  assumes "k = (if is_valid uid then Oid (ObjectId uid) else Str uid)"
  shows "\<exists>ps. mongo_get_user_posts None mdb uid = (Inr ps, [], mdb)
       \<and> mset ps = mset (map (\<lambda>post. post\<lparr>pd_id := Str (str_idval (pd_id post)),
                                             pd_user_id := Str (str_idval (pd_user_id post))\<rparr>)
                           (filter (\<lambda>p. pd_user_id p = k) (posts_collection mdb)))
       \<and> sorted_wrt (\<lambda>a b. a \<ge> b) (map pd_created_at ps)"
proof -
  let ?sel = "rev (sort_key pd_created_at
                (filter (\<lambda>p. pd_user_id p = k) (posts_collection mdb)))"
  let ?str = "\<lambda>post. post\<lparr>pd_id := Str (str_idval (pd_id post)),
                             pd_user_id := Str (str_idval (pd_user_id post))\<rparr>"
  have "mongo_get_user_posts None mdb uid = (Inr (map ?str ?sel), [], mdb)"
    using assms by (simp add: mongo_get_user_posts_def posts_find_sorted_def Let_def)
  moreover have "mset (map ?str ?sel) =
      mset (map ?str (filter (\<lambda>p. pd_user_id p = k) (posts_collection mdb)))"
    by simp
  moreover have "sorted_wrt (\<lambda>a b. a \<ge> b) (map pd_created_at (map ?str ?sel))"
  proof -
    have e: "map pd_created_at (map ?str ?sel) = map pd_created_at ?sel"
      by simp
    show ?thesis
      unfolding e by (rule sorted_desc_rev_sort_key)
  qed
  ultimately show ?thesis
    by blast
qed

text \<open>
  C5. \<^verbatim>\<open>get_user_posts\<close> returns the posts whose owner is the identifier, each once
  (relational: the four selected columns; document: with both ids written as strings), the
  latest \<^verbatim>\<open>created_at\<close> first. For a working store, and in the relational variant an
  identifier the store can hold.
\<close>

theorem get_user_posts_newest_first:
  assumes "int64 user_id"
    and "k = (if is_valid uid then Oid (ObjectId uid) else Str uid)"
  shows "(\<exists>rows. sqlite_get_user_posts None db user_id = (Inr rows, [], db)
         \<and> mset rows = mset (map (\<lambda>p. (p_id p, p_title p, p_content p, p_created_at p))
                               (filter (\<lambda>p. p_user_id p = user_id) (posts db)))
         \<and> sorted_wrt (\<lambda>a b. a \<ge> b) (map (\<lambda>(i, t, c, created). created) rows))
       \<and> (\<exists>ps. mongo_get_user_posts None mdb uid = (Inr ps, [], mdb)
         \<and> mset ps = mset (map (\<lambda>post. post\<lparr>pd_id := Str (str_idval (pd_id post)),
                                               pd_user_id := Str (str_idval (pd_user_id post))\<rparr>)
                             (filter (\<lambda>p. pd_user_id p = k) (posts_collection mdb)))
         \<and> sorted_wrt (\<lambda>a b. a \<ge> b) (map pd_created_at ps))"
  using sqlite_get_user_posts_ok [OF assms(1)] mongo_get_user_posts_ok [OF assms(2)]
  by simp

text \<open>
  Three posts, the second of another owner, the third the latest: the third comes first,
  the second is left out.
\<close>

theorem get_user_posts_newest_first_witness:
  "sqlite_get_user_posts None
      \<lparr>users = [ada],
        posts = [hello, hello\<lparr>p_id := 2, p_user_id := 7\<rparr>,
                 hello\<lparr>p_id := 3, p_title := ''Again'', p_created_at := ''2024-01-01 10:00:09''\<rparr>],
        users_seq = 1, posts_seq = 3\<rparr> 1 =
     (Inr [(3, ''Again'', ''World'', ''2024-01-01 10:00:09''),
           (1, ''Hello'', ''World'', ''2024-01-01 10:00:05'')], [],
      \<lparr>users = [ada],
        posts = [hello, hello\<lparr>p_id := 2, p_user_id := 7\<rparr>,
                 hello\<lparr>p_id := 3, p_title := ''Again'', p_created_at := ''2024-01-01 10:00:09''\<rparr>],
        users_seq = 1, posts_seq = 3\<rparr>)
   \<and> mongo_get_user_posts None
      \<lparr>users_collection = [ada_doc],
        posts_collection = [hello_doc, hello_doc\<lparr>pd_user_id := Str ''7''\<rparr>,
                 hello_doc\<lparr>pd_title := ''Again'', pd_created_at := 1704103209000\<rparr>]\<rparr>
      ''65a000000000000000000001'' =
     (Inr [\<lparr>pd_id = Str ''65a000000000000000000002'',
             pd_user_id = Str ''65a000000000000000000001'', pd_title = ''Again'',
             pd_content = ''World'', pd_created_at = 1704103209000\<rparr>,
           \<lparr>pd_id = Str ''65a000000000000000000002'',
             pd_user_id = Str ''65a000000000000000000001'', pd_title = ''Hello'',
             pd_content = ''World'', pd_created_at = 1704103205000\<rparr>], [],
      \<lparr>users_collection = [ada_doc],
        posts_collection = [hello_doc, hello_doc\<lparr>pd_user_id := Str ''7''\<rparr>,
                 hello_doc\<lparr>pd_title := ''Again'', pd_created_at := 1704103209000\<rparr>]\<rparr>)"
proof -
  have i: "int64 1"
    by (simp add: int64_def)
  let ?db = "\<lparr>users = [ada],
        posts = [hello, hello\<lparr>p_id := 2, p_user_id := 7\<rparr>,
                 hello\<lparr>p_id := 3, p_title := ''Again'', p_created_at := ''2024-01-01 10:00:09''\<rparr>],
        users_seq = 1, posts_seq = 3\<rparr>"
  let ?mdb = "\<lparr>users_collection = [ada_doc],
        posts_collection = [hello_doc, hello_doc\<lparr>pd_user_id := Str ''7''\<rparr>,
                 hello_doc\<lparr>pd_title := ''Again'', pd_created_at := 1704103209000\<rparr>]\<rparr>"
  note t = get_user_posts_newest_first [OF i normalize_oid1, of ?db ?mdb]
  obtain rows where r: "sqlite_get_user_posts None ?db 1 = (Inr rows, [], ?db)"
    using t by blast
  obtain ps where p: "mongo_get_user_posts None ?mdb ''65a000000000000000000001'' = (Inr ps, [], ?mdb)"
    using t by blast
  have "rows = [(3, ''Again'', ''World'', ''2024-01-01 10:00:09''),
                (1, ''Hello'', ''World'', ''2024-01-01 10:00:05'')]"
    using r by (simp add: hello_def sqlite_get_user_posts_def sql_select_user_posts_def int64_def)
  moreover have "ps = [\<lparr>pd_id = Str ''65a000000000000000000002'',
             pd_user_id = Str ''65a000000000000000000001'', pd_title = ''Again'',
             pd_content = ''World'', pd_created_at = 1704103209000\<rparr>,
           \<lparr>pd_id = Str ''65a000000000000000000002'',
             pd_user_id = Str ''65a000000000000000000001'', pd_title = ''Hello'',
             pd_content = ''World'', pd_created_at = 1704103205000\<rparr>]"
    using p normalize_oid1 [symmetric]
    by (simp add: hello_doc_def oid1_def oid2_def mongo_get_user_posts_def
        posts_find_sorted_def Let_def)
  ultimately show ?thesis
    using r p by simp
qed

subsection \<open>Creating a post\<close>

lemma fold_max_ge: "x \<in> set ids \<Longrightarrow> x \<le> fold max ids (seq :: int)"
proof -
  assume "x \<in> set ids"
  then have "x \<le> Max (set (seq # ids))"
    by (intro Max_ge) auto
  then show ?thesis
    by (simp only: Max.set_eq_fold)
qed

lemma next_rowid_fresh: "next_rowid ids seq \<notin> set ids"
proof
  assume "next_rowid ids seq \<in> set ids"
  then have "next_rowid ids seq \<le> fold max ids seq"
    by (rule fold_max_ge)
  then show False
    by (simp add: next_rowid_def)
qed

text \<open>
  C6. \<^verbatim>\<open>create_post\<close> adds the post with the owner it was given and returns the new
  id, whatever the users are: no hypothesis mentions them. "The store accepts the write" is:
  the statement or request runs, and in the relational variant the identifier fits the
  column, in the document variant the new \<^verbatim>\<open>_id\<close> is not taken.
\<close>

theorem create_post_unchecked_owner:
  assumes "int64 user_id"
    and "Oid oid \<notin> set (map pd_id (posts_collection mdb))"
    and "k = (if is_valid uid then Oid (ObjectId uid) else Str uid)"
  shows "(\<exists>post_id. post_id \<notin> set (map p_id (posts db))
         \<and> sqlite_create_post None now db user_id title content =
             (Inr post_id, [],
              db\<lparr>posts := posts db @
                    [\<lparr>p_id = post_id, p_user_id = user_id, p_title = title,
                      p_content = content, p_created_at = now\<rparr>],
                 posts_seq := post_id\<rparr>))
       \<and> mongo_create_post None now' oid mdb uid title' content' =
           (Inr (Some (oid_hex oid)), [],
            mdb\<lparr>posts_collection := posts_collection mdb @
                  [\<lparr>pd_id = Oid oid, pd_user_id = k, pd_title = title',
                    pd_content = content', pd_created_at = now'\<rparr>]\<rparr>)"
  using assms next_rowid_fresh [of "map p_id (posts db)" "posts_seq db"]
  by (simp add: sqlite_create_post_def sql_insert_post_def mongo_create_post_def
      posts_insert_one_def Let_def)

theorem create_post_unchecked_owner_witness:
  "sqlite_create_post None ''2024-01-01 10:00:00'' empty_db 7 ''t'' ''c'' =
     (Inr 1, [],
      \<lparr>users = [],
        posts = [\<lparr>p_id = 1, p_user_id = 7, p_title = ''t'', p_content = ''c'',
                  p_created_at = ''2024-01-01 10:00:00''\<rparr>],
        users_seq = 0, posts_seq = 1\<rparr>)
   \<and> mongo_create_post None 1704103200000 oid2 mongo_empty ''7'' ''t'' ''c'' =
     (Inr (Some ''65a000000000000000000002''), [],
      \<lparr>users_collection = [],
        posts_collection = [\<lparr>pd_id = Oid oid2, pd_user_id = Str ''7'', pd_title = ''t'',
                  pd_content = ''c'', pd_created_at = 1704103200000\<rparr>]\<rparr>)"
proof -
  have i: "int64 7"
    by (simp add: int64_def)
  have f: "Oid oid2 \<notin> set (map pd_id (posts_collection mongo_empty))"
    by (simp add: mongo_empty_def)
  have v: "Str ''7'' = (if is_valid ''7'' then Oid (ObjectId ''7'') else Str ''7'')"
    by (simp add: is_valid_def)
  note t = create_post_unchecked_owner [OF i f v,
      of empty_db "''2024-01-01 10:00:00''" "''t''" "''c''" 1704103200000 "''t''" "''c''"]
  obtain post_id where
    "sqlite_create_post None ''2024-01-01 10:00:00'' empty_db 7 ''t'' ''c'' =
       (Inr post_id, [],
        empty_db\<lparr>posts := posts empty_db @
            [\<lparr>p_id = post_id, p_user_id = 7, p_title = ''t'', p_content = ''c'',
              p_created_at = ''2024-01-01 10:00:00''\<rparr>],
          posts_seq := post_id\<rparr>)"
    using t by blast
  moreover from this have "post_id = 1"
    by (simp add: sqlite_create_post_def sql_insert_post_def int64_def empty_db_def
        next_rowid_def)
  ultimately show ?thesis
    using t by (simp add: empty_db_def mongo_empty_def oid2_def)
qed

subsection \<open>A created post is listed\<close>

text \<open>
  C10. \<^verbatim>\<open>create_post\<close> and \<^verbatim>\<open>get_user_posts\<close> normalize the identifier by the same
  expression, so a post that \<^verbatim>\<open>create_post(u, title, content)\<close> has created, returning
  \<open>post_id\<close>, is among the results of \<^verbatim>\<open>get_user_posts(u)\<close> on the resulting store, for
  every string \<open>u\<close>.
\<close>

theorem created_post_is_listed:
  assumes "mongo_create_post fault now oid db u title content = (Inr (Some post_id), printed, db')"
  shows "\<exists>ps. mongo_get_user_posts None db' u = (Inr ps, [], db')
       \<and> (\<exists>p \<in> set ps. pd_id p = Str post_id \<and> pd_title p = title \<and> pd_content p = content)"
proof -
  let ?k = "if is_valid u then Oid (ObjectId u) else Str u"
  let ?new = "\<lparr>pd_id = Oid oid, pd_user_id = ?k, pd_title = title, pd_content = content,
               pd_created_at = now\<rparr>"
  let ?str = "\<lambda>post. post\<lparr>pd_id := Str (str_idval (pd_id post)),
                             pd_user_id := Str (str_idval (pd_user_id post))\<rparr>"
  have created: "post_id = oid_hex oid
      \<and> db' = db\<lparr>posts_collection := posts_collection db @ [?new]\<rparr>"
    using assms
    by (auto simp: mongo_create_post_def posts_insert_one_def Let_def
        split: option.splits if_splits)
  let ?sel = "rev (sort_key pd_created_at (filter (\<lambda>p. pd_user_id p = ?k) (posts_collection db')))"
  have listed: "mongo_get_user_posts None db' u = (Inr (map ?str ?sel), [], db')"
    by (simp add: mongo_get_user_posts_def posts_find_sorted_def Let_def)
  have "?new \<in> set ?sel"
    using created by simp
  then have "?str ?new \<in> ?str ` set ?sel"
    using imageI [of ?new "set ?sel" ?str] by simp
  then have "?str ?new \<in> set (map ?str ?sel)"
    by (simp only: set_map)
  moreover have "pd_id (?str ?new) = Str post_id \<and> pd_title (?str ?new) = title
      \<and> pd_content (?str ?new) = content"
    using created by simp
  ultimately show ?thesis
    using listed by blast
qed

theorem created_post_is_listed_witness:
  "mongo_create_post None 1704103200000 oid2 mongo_empty ''not an object id'' ''t'' ''c'' =
     (Inr (Some ''65a000000000000000000002''), [],
      \<lparr>users_collection = [],
        posts_collection = [\<lparr>pd_id = Oid oid2, pd_user_id = Str ''not an object id'',
           pd_title = ''t'', pd_content = ''c'', pd_created_at = 1704103200000\<rparr>]\<rparr>)
   \<and> (\<exists>ps. mongo_get_user_posts None
        \<lparr>users_collection = [],
          posts_collection = [\<lparr>pd_id = Oid oid2, pd_user_id = Str ''not an object id'',
             pd_title = ''t'', pd_content = ''c'', pd_created_at = 1704103200000\<rparr>]\<rparr>
        ''not an object id'' =
       (Inr ps, [],
        \<lparr>users_collection = [],
          posts_collection = [\<lparr>pd_id = Oid oid2, pd_user_id = Str ''not an object id'',
             pd_title = ''t'', pd_content = ''c'', pd_created_at = 1704103200000\<rparr>]\<rparr>)
     \<and> (\<exists>p. p \<in> set ps \<and> pd_id p = Str ''65a000000000000000000002''
           \<and> pd_title p = ''t'' \<and> pd_content p = ''c''))"
proof -
  have c: "mongo_create_post None 1704103200000 oid2 mongo_empty ''not an object id'' ''t'' ''c'' =
     (Inr (Some ''65a000000000000000000002''), [],
      \<lparr>users_collection = [],
        posts_collection = [\<lparr>pd_id = Oid oid2, pd_user_id = Str ''not an object id'',
           pd_title = ''t'', pd_content = ''c'', pd_created_at = 1704103200000\<rparr>]\<rparr>)"
    by (simp add: mongo_create_post_def posts_insert_one_def mongo_empty_def is_valid_def
        oid2_def)
  show ?thesis
    using c created_post_is_listed [OF c] by (simp add: Bex_def)
qed

subsection \<open>Listing the users\<close>

lemma sqlite_create_user_count:
  "sqlite_create_user fault now db name email age = (r, printed, db') \<Longrightarrow>
     length (users db') = length (users db) + (if created r then 1 else 0)"
  by (auto simp: sqlite_create_user_def sql_insert_user_def Let_def
      split: option.splits if_splits)

lemma mongo_create_user_count:
  "mongo_create_user fault now oid db name email age = (r, printed, db') \<Longrightarrow>
     length (users_collection db') = length (users_collection db) + (if created r then 1 else 0)"
  by (auto simp: mongo_create_user_def users_insert_one_def
      split: option.splits if_splits)

lemma sqlite_create_users_count:
  "sqlite_create_users db calls = (rs, db') \<Longrightarrow>
     length rs = length calls
     \<and> length (users db') = length (users db) + length (filter created rs)"
proof (induction calls arbitrary: db rs db')
  case Nil
  then show ?case by simp
next
  case (Cons call calls)
  obtain fault now name email age where call: "call = (fault, now, name, email, age)"
    by (cases call)
  obtain r printed db1 where one: "sqlite_create_user fault now db name email age = (r, printed, db1)"
    by (cases "sqlite_create_user fault now db name email age")
  obtain rs1 db2 where more: "sqlite_create_users db1 calls = (rs1, db2)"
    by (cases "sqlite_create_users db1 calls")
  have res: "rs = r # rs1" "db' = db2"
    using Cons.prems call one more by simp_all
  show ?case
    using Cons.IH [OF more] sqlite_create_user_count [OF one] res by simp
qed

lemma mongo_create_users_count:
  "mongo_create_users db calls = (rs, db') \<Longrightarrow>
     length rs = length calls
     \<and> length (users_collection db') = length (users_collection db) + length (filter created rs)"
proof (induction calls arbitrary: db rs db')
  case Nil
  then show ?case by simp
next
  case (Cons call calls)
  obtain fault now oid name email age where call: "call = (fault, now, oid, name, email, age)"
    by (cases call)
  obtain r printed db1 where
    one: "mongo_create_user fault now oid db name email age = (r, printed, db1)"
    by (cases "mongo_create_user fault now oid db name email age")
  obtain rs1 db2 where more: "mongo_create_users db1 calls = (rs1, db2)"
    by (cases "mongo_create_users db1 calls")
  have res: "rs = r # rs1" "db' = db2"
    using Cons.prems call one more by simp_all
  show ?case
    using Cons.IH [OF more] mongo_create_user_count [OF one] res by simp
qed

text \<open>
  Calls succeed when the store works, the ages fit, and the emails (in the document
  variant also the new ids) differ from each other and from those already stored.
\<close>

lemma sqlite_create_users_distinct:
  assumes "distinct (map (\<lambda>(fault, now, name, email, age). email) calls)"
    and "\<forall>(fault, now, name, email, age) \<in> set calls.
           fault = None \<and> int64 age \<and> email \<notin> set (map u_email (users db))"
  shows "list_all created (fst (sqlite_create_users db calls))"
  using assms
proof (induction calls arbitrary: db)
  case Nil
  then show ?case by simp
next
  case (Cons call calls)
  obtain fault now name email age where call: "call = (fault, now, name, email, age)"
    by (cases call)
  have ok: "fault = None" "int64 age" "email \<notin> set (map u_email (users db))"
    using Cons.prems(2) call by auto
  let ?rid = "next_rowid (map u_id (users db)) (users_seq db)"
  let ?db1 = "db\<lparr>users := users db @
        [\<lparr>u_id = ?rid, u_name = name, u_email = email, u_age = age, u_created_at = now\<rparr>],
      users_seq := ?rid\<rparr>"
  have one: "sqlite_create_user fault now db name email age = (Inr (Some ?rid), [], ?db1)"
    using ok by (simp add: sqlite_create_user_def sql_insert_user_def Let_def)
  have d: "distinct (map (\<lambda>(fault, now, name, email, age). email) calls)"
    using Cons.prems(1) by simp
  have fresh: "\<forall>(fault, now, name, email, age) \<in> set calls.
      fault = None \<and> int64 age \<and> email \<notin> set (map u_email (users ?db1))"
    using Cons.prems call by (auto simp: image_iff)
  obtain rs db2 where more: "sqlite_create_users ?db1 calls = (rs, db2)"
    by (cases "sqlite_create_users ?db1 calls")
  have "list_all created (fst (sqlite_create_users ?db1 calls))"
    by (rule Cons.IH [OF d fresh])
  then have "list_all created rs"
    using more by simp
  then show ?case
    using call one more by simp
qed

lemma mongo_create_users_distinct:
  assumes "distinct (map (\<lambda>(fault, now, oid, name, email, age). email) calls)"
    and "distinct (map (\<lambda>(fault, now, oid, name, email, age). oid) calls)"
    and "\<forall>(fault, now, oid, name, email, age) \<in> set calls.
           fault = None \<and> int64 age \<and> email \<notin> set (map ud_email (users_collection db))
           \<and> Oid oid \<notin> set (map ud_id (users_collection db))"
  shows "list_all created (fst (mongo_create_users db calls))"
  using assms
proof (induction calls arbitrary: db)
  case Nil
  then show ?case by simp
next
  case (Cons call calls)
  obtain fault now oid name email age where call: "call = (fault, now, oid, name, email, age)"
    by (cases call)
  have ok: "fault = None" "int64 age" "email \<notin> set (map ud_email (users_collection db))"
    "Oid oid \<notin> set (map ud_id (users_collection db))"
    using Cons.prems(3) call by auto
  let ?db1 = "db\<lparr>users_collection := users_collection db @
        [\<lparr>ud_id = Oid oid, ud_name = name, ud_email = email, ud_age = age,
          ud_created_at = now\<rparr>]\<rparr>"
  have one: "mongo_create_user fault now oid db name email age =
      (Inr (Some (oid_hex oid)), [], ?db1)"
    using ok by (simp add: mongo_create_user_def users_insert_one_def)
  have d: "distinct (map (\<lambda>(fault, now, oid, name, email, age). email) calls)"
    "distinct (map (\<lambda>(fault, now, oid, name, email, age). oid) calls)"
    using Cons.prems(1,2) by (simp_all add: case_prod_unfold)
  have fresh: "\<forall>(fault, now, oid, name, email, age) \<in> set calls.
      fault = None \<and> int64 age \<and> email \<notin> set (map ud_email (users_collection ?db1))
      \<and> Oid oid \<notin> set (map ud_id (users_collection ?db1))"
    using Cons.prems call by (auto simp: image_iff)
  obtain rs db2 where more: "mongo_create_users ?db1 calls = (rs, db2)"
    by (cases "mongo_create_users ?db1 calls")
  have "list_all created (fst (mongo_create_users ?db1 calls))"
    by (rule Cons.IH [OF d fresh])
  then have "list_all created rs"
    using more by simp
  then show ?case
    using call one more by simp
qed

lemma filter_all: "list_all P xs \<Longrightarrow> filter P xs = xs"
  by (induction xs) auto

text \<open>
  C7. On a new store, after \<open>N\<close> calls of \<^verbatim>\<open>create_user\<close> that each returned an
  identifier, \<^verbatim>\<open>get_all_users\<close> returns \<open>N\<close> entries (the store working when it
  lists).
\<close>

theorem get_all_users_counts_created:
  assumes "sqlite_create_users empty_db calls = (rs, db')"
    and "list_all created rs"
    and "mongo_create_users mongo_empty mcalls = (mrs, mdb')"
    and "list_all created mrs"
  shows "(\<exists>us. sqlite_get_all_users None db' = (Inr us, [], db') \<and> length us = length calls)
       \<and> (\<exists>us. mongo_get_all_users None mdb' = (Inr us, [], mdb') \<and> length us = length mcalls)"
proof -
  have "length (users db') = length calls"
    using sqlite_create_users_count [OF assms(1)] filter_all [OF assms(2)]
    by (simp add: empty_db_def)
  moreover have "length (users_collection mdb') = length mcalls"
    using mongo_create_users_count [OF assms(3)] filter_all [OF assms(4)]
    by (simp add: mongo_empty_def)
  ultimately show ?thesis
    by (simp add: sqlite_get_all_users_def sql_select_users_def mongo_get_all_users_def
        users_find_def)
qed

text \<open>Two users with different emails; a third call with the first email would fail.\<close>

theorem get_all_users_counts_created_witness:
  "sqlite_create_users empty_db
      [(None, ''2024-01-01 10:00:00'', ''Ada'', ''ada@example.com'', 30),
       (None, ''2024-01-01 10:00:07'', ''Bob'', ''bob@example.com'', 25)] =
     ([Inr (Some 1), Inr (Some 2)],
      \<lparr>users = [ada, \<lparr>u_id = 2, u_name = ''Bob'', u_email = ''bob@example.com'', u_age = 25,
                        u_created_at = ''2024-01-01 10:00:07''\<rparr>],
        posts = [], users_seq = 2, posts_seq = 0\<rparr>)
   \<and> mongo_create_users mongo_empty
      [(None, 1704103200000, oid1, ''Ada'', ''ada@example.com'', 30),
       (None, 1704103207000, oid2, ''Bob'', ''bob@example.com'', 25)] =
     ([Inr (Some ''65a000000000000000000001''), Inr (Some ''65a000000000000000000002'')],
      \<lparr>users_collection = [ada_doc, \<lparr>ud_id = Oid oid2, ud_name = ''Bob'',
            ud_email = ''bob@example.com'', ud_age = 25, ud_created_at = 1704103207000\<rparr>],
        posts_collection = []\<rparr>)
   \<and> (\<exists>us. sqlite_get_all_users None
        \<lparr>users = [ada, \<lparr>u_id = 2, u_name = ''Bob'', u_email = ''bob@example.com'', u_age = 25,
                        u_created_at = ''2024-01-01 10:00:07''\<rparr>],
          posts = [], users_seq = 2, posts_seq = 0\<rparr> =
       (Inr us, [],
        \<lparr>users = [ada, \<lparr>u_id = 2, u_name = ''Bob'', u_email = ''bob@example.com'', u_age = 25,
                        u_created_at = ''2024-01-01 10:00:07''\<rparr>],
          posts = [], users_seq = 2, posts_seq = 0\<rparr>) \<and> length us = 2)
   \<and> (\<exists>us. mongo_get_all_users None
        \<lparr>users_collection = [ada_doc, \<lparr>ud_id = Oid oid2, ud_name = ''Bob'',
            ud_email = ''bob@example.com'', ud_age = 25, ud_created_at = 1704103207000\<rparr>],
          posts_collection = []\<rparr> =
       (Inr us, [],
        \<lparr>users_collection = [ada_doc, \<lparr>ud_id = Oid oid2, ud_name = ''Bob'',
            ud_email = ''bob@example.com'', ud_age = 25, ud_created_at = 1704103207000\<rparr>],
          posts_collection = []\<rparr>) \<and> length us = 2)"
proof -
  have s: "sqlite_create_users empty_db
      [(None, ''2024-01-01 10:00:00'', ''Ada'', ''ada@example.com'', 30),
       (None, ''2024-01-01 10:00:07'', ''Bob'', ''bob@example.com'', 25)] =
     ([Inr (Some 1), Inr (Some 2)],
      \<lparr>users = [ada, \<lparr>u_id = 2, u_name = ''Bob'', u_email = ''bob@example.com'', u_age = 25,
                        u_created_at = ''2024-01-01 10:00:07''\<rparr>],
        posts = [], users_seq = 2, posts_seq = 0\<rparr>)"
    by (simp add: sqlite_create_user_def sql_insert_user_def int64_def empty_db_def
        next_rowid_def ada_def)
  have m: "mongo_create_users mongo_empty
      [(None, 1704103200000, oid1, ''Ada'', ''ada@example.com'', 30),
       (None, 1704103207000, oid2, ''Bob'', ''bob@example.com'', 25)] =
     ([Inr (Some ''65a000000000000000000001''), Inr (Some ''65a000000000000000000002'')],
      \<lparr>users_collection = [ada_doc, \<lparr>ud_id = Oid oid2, ud_name = ''Bob'',
            ud_email = ''bob@example.com'', ud_age = 25, ud_created_at = 1704103207000\<rparr>],
        posts_collection = []\<rparr>)"
    by (simp add: mongo_create_user_def users_insert_one_def int64_def mongo_empty_def
        ada_doc_def oid1_def oid2_def)
  have c: "list_all created [Inr (Some (1::int)), Inr (Some 2)]"
    by simp
  have d: "list_all created
      [Inr (Some ''65a000000000000000000001''), Inr (Some ''65a000000000000000000002'')]"
    by simp
  note t = get_all_users_counts_created [OF s c m d]
  show ?thesis
    apply (intro conjI)
       apply (rule s)
      apply (rule m)
     apply (use t in \<open>simp add: numeral_2_eq_2\<close>)
    apply (use t in \<open>simp add: numeral_2_eq_2\<close>)
    done
qed

subsection \<open>Store failures\<close>

text \<open>
  C3, as the code has it. In the document variant every method catches every exception:
  whatever the faults, no exception leaves a method, and a failing request gives the
  printed diagnostic and the sentinel (\<^verbatim>\<open>None\<close>, the empty list, \<^verbatim>\<open>False\<close>). In the
  relational variant \<^verbatim>\<open>create_user\<close> catches \<^verbatim>\<open>sqlite3.IntegrityError\<close> and nothing
  else, and the four other methods catch nothing: the exception leaves the method, nothing
  is printed, and the transaction is rolled back.
\<close>

theorem store_failures:
  assumes "int64 age" and "int64 user_id" and "\<not> is_IntegrityError e"
  shows "(\<exists>r out db'. mongo_create_user f now oid mdb name email a = (Inr r, out, db'))
       \<and> (\<exists>r out db'. mongo_create_post f now oid mdb uid title content = (Inr r, out, db'))
       \<and> (\<exists>r out db'. mongo_get_all_users f mdb = (Inr r, out, db'))
       \<and> (\<exists>r out db'. mongo_get_user_posts f mdb uid = (Inr r, out, db'))
       \<and> (\<exists>r out db'. mongo_delete_user f f' mdb uid = (Inr r, out, db'))
       \<and> mongo_create_user (Some x) now oid mdb name email age =
           (Inr None, [''Error: '' @ str_exn x], mdb)
       \<and> mongo_create_post (Some x) now oid mdb uid title content =
           (Inr None, [''Error creating post: '' @ str_exn x], mdb)
       \<and> mongo_get_all_users (Some x) mdb =
           (Inr [], [''Error fetching users: '' @ str_exn x], mdb)
       \<and> mongo_get_user_posts (Some x) mdb uid =
           (Inr [], [''Error fetching post: '' @ str_exn x], mdb)
       \<and> mongo_delete_user (Some x) f' mdb uid =
           (Inr False, [''Error deleting user: '' @ str_exn x], mdb)
       \<and> sqlite_create_user (Some (IntegrityError m)) now' db name email age =
           (Inr None, [''Error: '' @ m], db)
       \<and> sqlite_create_user (Some e) now' db name email age = (Inl e, [], db)
       \<and> sqlite_create_post (Some x) now' db user_id title content = (Inl x, [], db)
       \<and> sqlite_get_all_users (Some x) db = (Inl x, [], db)
       \<and> sqlite_get_user_posts (Some x) db user_id = (Inl x, [], db)
       \<and> sqlite_delete_user (Some x) f' db user_id = (Inl x, [], db)
       \<and> sqlite_delete_user None (Some x) db user_id = (Inl x, [], db)"
proof -
  have m1: "\<exists>r out db'. mongo_create_user f now oid mdb name email a = (Inr r, out, db')"
    by (simp add: mongo_create_user_def split: sum.splits prod.splits)
  have m2: "\<exists>r out db'. mongo_create_post f now oid mdb uid title content = (Inr r, out, db')"
    by (simp add: mongo_create_post_def Let_def split: sum.splits prod.splits)
  have m3: "\<exists>r out db'. mongo_get_all_users f mdb = (Inr r, out, db')"
    by (simp add: mongo_get_all_users_def split: sum.splits)
  have m4: "\<exists>r out db'. mongo_get_user_posts f mdb uid = (Inr r, out, db')"
    by (simp add: mongo_get_user_posts_def Let_def split: sum.splits)
  have m5: "\<exists>r out db'. mongo_delete_user f f' mdb uid = (Inr r, out, db')"
    by (cases f; cases f')
      (auto simp: mongo_delete_user_def Let_def posts_delete_many_def users_delete_one_def
        split: prod.splits)
  have n1: "mongo_create_user (Some x) now oid mdb name email age =
      (Inr None, [''Error: '' @ str_exn x], mdb)"
    using assms(1) by (simp add: mongo_create_user_def users_insert_one_def)
  have n2: "mongo_create_post (Some x) now oid mdb uid title content =
      (Inr None, [''Error creating post: '' @ str_exn x], mdb)"
    by (simp add: mongo_create_post_def posts_insert_one_def)
  have n3: "mongo_get_all_users (Some x) mdb =
      (Inr [], [''Error fetching users: '' @ str_exn x], mdb)"
    by (simp add: mongo_get_all_users_def users_find_def)
  have n4: "mongo_get_user_posts (Some x) mdb uid =
      (Inr [], [''Error fetching post: '' @ str_exn x], mdb)"
    by (simp add: mongo_get_user_posts_def posts_find_sorted_def)
  have n5: "mongo_delete_user (Some x) f' mdb uid =
      (Inr False, [''Error deleting user: '' @ str_exn x], mdb)"
    by (simp add: mongo_delete_user_def posts_delete_many_def)
  have s1: "sqlite_create_user (Some (IntegrityError m)) now' db name email age =
      (Inr None, [''Error: '' @ m], db)"
    using assms(1) by (simp add: sqlite_create_user_def sql_insert_user_def)
  have s2: "sqlite_create_user (Some e) now' db name email age = (Inl e, [], db)"
    using assms(1,3) by (simp add: sqlite_create_user_def sql_insert_user_def)
  have s3: "sqlite_create_post (Some x) now' db user_id title content = (Inl x, [], db)"
    using assms(2) by (simp add: sqlite_create_post_def sql_insert_post_def)
  have s4: "sqlite_get_all_users (Some x) db = (Inl x, [], db)"
    by (simp add: sqlite_get_all_users_def sql_select_users_def)
  have s5: "sqlite_get_user_posts (Some x) db user_id = (Inl x, [], db)"
    using assms(2) by (simp add: sqlite_get_user_posts_def sql_select_user_posts_def)
  have s6: "sqlite_delete_user (Some x) f' db user_id = (Inl x, [], db)"
    using assms(2) by (simp add: sqlite_delete_user_def sql_delete_posts_def)
  have s7: "sqlite_delete_user None (Some x) db user_id = (Inl x, [], db)"
    using assms(2)
    by (simp add: sqlite_delete_user_def sql_delete_posts_def sql_delete_user_def)
  show ?thesis
    by (intro conjI m1 m2 m3 m4 m5 n1 n2 n3 n4 n5 s1 s2 s3 s4 s5 s6 s7)
qed

theorem store_failures_witness:
  "mongo_get_user_posts (Some (PyMongoError ''timed out''))
      \<lparr>users_collection = [ada_doc], posts_collection = [hello_doc]\<rparr>
      ''65a000000000000000000001'' =
     (Inr [], [''Error fetching post: timed out''],
      \<lparr>users_collection = [ada_doc], posts_collection = [hello_doc]\<rparr>)
   \<and> sqlite_create_user (Some (IntegrityError ''NOT NULL constraint failed: users.name''))
      ''2024-01-02 09:00:00'' empty_db ''Eve'' ''eve@example.com'' 41 =
     (Inr None, [''Error: NOT NULL constraint failed: users.name''], empty_db)
   \<and> sqlite_create_user (Some (OperationalError ''database is locked''))
      ''2024-01-02 09:00:00'' empty_db ''Eve'' ''eve@example.com'' 41 =
     (Inl (OperationalError ''database is locked''), [], empty_db)"
proof -
  have a: "int64 41" and b: "int64 1"
    by (simp_all add: int64_def)
  have c: "\<not> is_IntegrityError (OperationalError ''database is locked'')"
    by simp
  note t = store_failures [OF a b c,
      of None 0 oid2 "\<lparr>users_collection = [ada_doc], posts_collection = [hello_doc]\<rparr>"
         "''Eve''" "''eve@example.com''" 41 "''65a000000000000000000001''" "''t''" "''c''" None
         "PyMongoError ''timed out''" "''NOT NULL constraint failed: users.name''"
         "''2024-01-02 09:00:00''" empty_db]
  show ?thesis
    apply (intro conjI)
      apply (use t in simp)
     apply (use t in simp)
    apply (use t in simp)
    done
qed

text \<open>
  The claim as written fails in the relational variant. A locked database file while
  \<^verbatim>\<open>get_user_posts\<close> runs: the error leaves the method, nothing is printed. An identifier
  beyond 64 bits: \<^verbatim>\<open>OverflowError\<close> leaves the method and, since the menu loop catches
  \<^verbatim>\<open>ValueError\<close> alone, ends the program.
\<close>

theorem sqlite_store_error_propagates:
  "sqlite_get_user_posts (Some (OperationalError ''database is locked'')) empty_db 1 =
     (Inl (OperationalError ''database is locked''), [], empty_db)
   \<and> sqlite_get_user_posts None empty_db 9223372036854775808 =
     (Inl (OverflowError ''Python int too large to convert to SQLite INTEGER''), [], empty_db)
   \<and> sqlite_iteration \<lparr>se_now = ''2024-01-01 10:00:00'', se_fault1 = None, se_fault2 = None\<rparr>
      \<lparr>sh_db = empty_db, stdin = [''4'', ''9223372036854775808'', ''''], stdout = []\<rparr> =
     Inl (OverflowError ''Python int too large to convert to SQLite INTEGER'')"
proof -
  have p: "py_int (strip ''9223372036854775808'') = Some 9223372036854775808"
    by (simp add: py_int_def strip_def isspace_def unsigned_int_def isdigit_def digit_val_def)
  have c: "strip ''4'' = ''4''"
    by (simp add: strip_def isspace_def)
  have g: "sqlite_get_user_posts None empty_db 9223372036854775808 =
     (Inl (OverflowError ''Python int too large to convert to SQLite INTEGER''), [], empty_db)"
    by (simp add: sqlite_get_user_posts_def sql_select_user_posts_def int64_def overflow_msg_def)
  have l: "sqlite_get_user_posts (Some (OperationalError ''database is locked'')) empty_db 1 =
     (Inl (OperationalError ''database is locked''), [], empty_db)"
    by (simp add: sqlite_get_user_posts_def sql_select_user_posts_def int64_def)
  have i: "sqlite_iteration \<lparr>se_now = ''2024-01-01 10:00:00'', se_fault1 = None, se_fault2 = None\<rparr>
      \<lparr>sh_db = empty_db, stdin = [''4'', ''9223372036854775808'', ''''], stdout = []\<rparr> =
     Inl (OverflowError ''Python int too large to convert to SQLite INTEGER'')"
    by (simp add: sqlite_iteration_def sqlite_choice4_def py_input_def py_print_def
        display_menu_eq c p g Let_def)
  show ?thesis
    using l g i by simp
qed

subsection \<open>Numbers typed at the menu\<close>

text \<open>One pass of the loop that ends normally is followed by the next pass.\<close>

lemma sqlite_main_loop_continue:
  "sqlite_iteration (envs i) st = Inr (Continue st') \<Longrightarrow>
     sqlite_main_loop envs i st = sqlite_main_loop envs (Suc i) st'"
  by (subst sqlite_main_loop.simps) simp

lemma mongo_main_loop_continue:
  "mongo_iteration sd (envs i) st = Inr (Continue st') \<Longrightarrow>
     mongo_main_loop sd envs i st = mongo_main_loop sd envs (Suc i) st'"
  by (subst mongo_main_loop.simps) simp

lemma sqlite_invalid_age:
  assumes "strip c = ''1''" and "py_int (strip line) = None"
  shows "sqlite_iteration env
           \<lparr>sh_db = db, stdin = c # name # email # line # enter # rest, stdout = out\<rparr> =
         Inr (Continue \<lparr>sh_db = db, stdin = rest,
           stdout = out @ menu_lines '' DATABASE MANAGER '' @
             [''Enter your choice (1-6): '', nl # ''--- Create New User ---'',
              ''Enter name: '', ''Enter email: '', ''Enter age: '',
              ''Invalid age. Please enter a number.'',
              nl # ''Press Enter to continue'']\<rparr>)"
  using assms
  by (simp add: sqlite_iteration_def sqlite_choice1_def py_input_def py_print_def
      display_menu_eq)

lemma sqlite_invalid_post_owner:
  assumes "strip c = ''3''" and "py_int (strip line) = None"
  shows "sqlite_iteration env
           \<lparr>sh_db = db, stdin = c # line # enter # rest, stdout = out\<rparr> =
         Inr (Continue \<lparr>sh_db = db, stdin = rest,
           stdout = out @ menu_lines '' DATABASE MANAGER '' @
             [''Enter your choice (1-6): '', nl # ''--- Create New Post ---'',
              ''Enter user ID: '', ''Invalid user ID. Please enter a number'',
              nl # ''Press Enter to continue'']\<rparr>)"
  using assms
  by (simp add: sqlite_iteration_def sqlite_choice3_def py_input_def py_print_def
      display_menu_eq)

lemma sqlite_invalid_posts_owner:
  assumes "strip c = ''4''" and "py_int (strip line) = None"
  shows "sqlite_iteration env
           \<lparr>sh_db = db, stdin = c # line # enter # rest, stdout = out\<rparr> =
         Inr (Continue \<lparr>sh_db = db, stdin = rest,
           stdout = out @ menu_lines '' DATABASE MANAGER '' @
             [''Enter your choice (1-6): '', nl # ''--- View User Posts ---'',
              ''Enter user ID: '', ''Invalid user ID. Please enter a number.'',
              nl # ''Press Enter to continue'']\<rparr>)"
  using assms
  by (simp add: sqlite_iteration_def sqlite_choice4_def py_input_def py_print_def
      display_menu_eq)

lemma sqlite_invalid_delete_id:
  assumes "strip c = ''5''" and "py_int (strip line) = None"
  shows "sqlite_iteration env
           \<lparr>sh_db = db, stdin = c # line # enter # rest, stdout = out\<rparr> =
         Inr (Continue \<lparr>sh_db = db, stdin = rest,
           stdout = out @ menu_lines '' DATABASE MANAGER '' @
             [''Enter your choice (1-6): '', nl # ''--- Delete User ---'',
              ''Enter user ID to delete: '', ''Invalid user ID. Please enter a number.'',
              nl # ''Press Enter to continue'']\<rparr>)"
  using assms
  by (simp add: sqlite_iteration_def sqlite_choice5_def py_input_def py_print_def
      display_menu_eq)

lemma mongo_invalid_age:
  assumes "strip c = ''1''" and "py_int (strip line) = None"
  shows "mongo_iteration sd menv
           \<lparr>sh_db = mdb, stdin = c # name # email # line # enter # rest, stdout = out\<rparr> =
         Inr (Continue \<lparr>sh_db = mdb, stdin = rest,
           stdout = out @ menu_lines '' MONGODB MANAGER '' @
             [''Enter your choice (1-6): '', nl # ''--- Create New User ---'',
              ''Enter name: '', ''Enter email: '', ''Enter age: '',
              ''Invalid age. Please enter a number.'',
              nl # ''Press Enter to continue'']\<rparr>)"
  using assms
  by (simp add: mongo_iteration_def mongo_choice1_def py_input_def py_print_def
      display_menu_eq)

text \<open>
  C8. When the line typed for a number does not parse (the age in both programs; the user
  id at the three prompts of the relational program, where it is read with \<^verbatim>\<open>int\<close>),
  the pass prints the report, reads the line of "Press Enter to continue", and ends
  normally with the store as it was; the loop goes on with the rest of the input. The
  result does not depend on what the store would do (\<open>env\<close>, \<open>menv\<close> are arbitrary), so
  the repository is not called.
\<close>

theorem invalid_number_reported:
  assumes "py_int (strip line) = None"
    and "strip c1 = ''1''" and "strip c3 = ''3''" and "strip c4 = ''4''" and "strip c5 = ''5''"
  shows "sqlite_iteration env
           \<lparr>sh_db = db, stdin = c1 # name # email # line # enter # rest, stdout = out\<rparr> =
         Inr (Continue \<lparr>sh_db = db, stdin = rest,
           stdout = out @ menu_lines '' DATABASE MANAGER '' @
             [''Enter your choice (1-6): '', nl # ''--- Create New User ---'',
              ''Enter name: '', ''Enter email: '', ''Enter age: '',
              ''Invalid age. Please enter a number.'',
              nl # ''Press Enter to continue'']\<rparr>)
       \<and> sqlite_iteration env
           \<lparr>sh_db = db, stdin = c3 # line # enter # rest, stdout = out\<rparr> =
         Inr (Continue \<lparr>sh_db = db, stdin = rest,
           stdout = out @ menu_lines '' DATABASE MANAGER '' @
             [''Enter your choice (1-6): '', nl # ''--- Create New Post ---'',
              ''Enter user ID: '', ''Invalid user ID. Please enter a number'',
              nl # ''Press Enter to continue'']\<rparr>)
       \<and> sqlite_iteration env
           \<lparr>sh_db = db, stdin = c4 # line # enter # rest, stdout = out\<rparr> =
         Inr (Continue \<lparr>sh_db = db, stdin = rest,
           stdout = out @ menu_lines '' DATABASE MANAGER '' @
             [''Enter your choice (1-6): '', nl # ''--- View User Posts ---'',
              ''Enter user ID: '', ''Invalid user ID. Please enter a number.'',
              nl # ''Press Enter to continue'']\<rparr>)
       \<and> sqlite_iteration env
           \<lparr>sh_db = db, stdin = c5 # line # enter # rest, stdout = out\<rparr> =
         Inr (Continue \<lparr>sh_db = db, stdin = rest,
           stdout = out @ menu_lines '' DATABASE MANAGER '' @
             [''Enter your choice (1-6): '', nl # ''--- Delete User ---'',
              ''Enter user ID to delete: '', ''Invalid user ID. Please enter a number.'',
              nl # ''Press Enter to continue'']\<rparr>)
       \<and> mongo_iteration sd menv
           \<lparr>sh_db = mdb, stdin = c1 # name # email # line # enter # rest, stdout = out\<rparr> =
         Inr (Continue \<lparr>sh_db = mdb, stdin = rest,
           stdout = out @ menu_lines '' MONGODB MANAGER '' @
             [''Enter your choice (1-6): '', nl # ''--- Create New User ---'',
              ''Enter name: '', ''Enter email: '', ''Enter age: '',
              ''Invalid age. Please enter a number.'',
              nl # ''Press Enter to continue'']\<rparr>)
       \<and> sqlite_main_loop envs i
           \<lparr>sh_db = db, stdin = c4 # line # enter # rest, stdout = out\<rparr> =
         sqlite_main_loop envs (Suc i) \<lparr>sh_db = db, stdin = rest,
           stdout = out @ menu_lines '' DATABASE MANAGER '' @
             [''Enter your choice (1-6): '', nl # ''--- View User Posts ---'',
              ''Enter user ID: '', ''Invalid user ID. Please enter a number.'',
              nl # ''Press Enter to continue'']\<rparr>
       \<and> mongo_main_loop sd menvs i
           \<lparr>sh_db = mdb, stdin = c1 # name # email # line # enter # rest, stdout = out\<rparr> =
         mongo_main_loop sd menvs (Suc i) \<lparr>sh_db = mdb, stdin = rest,
           stdout = out @ menu_lines '' MONGODB MANAGER '' @
             [''Enter your choice (1-6): '', nl # ''--- Create New User ---'',
              ''Enter name: '', ''Enter email: '', ''Enter age: '',
              ''Invalid age. Please enter a number.'',
              nl # ''Press Enter to continue'']\<rparr>"
  by (intro conjI sqlite_invalid_age sqlite_invalid_post_owner sqlite_invalid_posts_owner
      sqlite_invalid_delete_id mongo_invalid_age sqlite_main_loop_continue
      mongo_main_loop_continue assms)

text \<open>
  The age \<^verbatim>\<open>thirty\<close> and the user id \<^verbatim>\<open>abc\<close>, typed while the store would fail every
  request: the pass ends normally all the same.
\<close>

theorem invalid_number_reported_witness:
  "sqlite_iteration
      \<lparr>se_now = ''2024-01-01 10:00:00'',
        se_fault1 = Some (OperationalError ''database is locked''),
        se_fault2 = Some (OperationalError ''database is locked'')\<rparr>
      \<lparr>sh_db = empty_db, stdin = ['' 4'', ''abc'', [], ''6''], stdout = []\<rparr> =
     Inr (Continue \<lparr>sh_db = empty_db, stdin = [''6''],
       stdout = menu_lines '' DATABASE MANAGER '' @
         [''Enter your choice (1-6): '', nl # ''--- View User Posts ---'',
          ''Enter user ID: '', ''Invalid user ID. Please enter a number.'',
          nl # ''Press Enter to continue'']\<rparr>)
   \<and> mongo_iteration (\<lambda>t. [])
      \<lparr>me_now = 1704103200000, me_oid = oid1,
        me_fault1 = Some (PyMongoError ''timed out''),
        me_fault2 = Some (PyMongoError ''timed out'')\<rparr>
      \<lparr>sh_db = mongo_empty, stdin = [''1'', ''Ada'', ''ada@example.com'', ''thirty'', [], ''6''],
        stdout = []\<rparr> =
     Inr (Continue \<lparr>sh_db = mongo_empty, stdin = [''6''],
       stdout = menu_lines '' MONGODB MANAGER '' @
         [''Enter your choice (1-6): '', nl # ''--- Create New User ---'',
          ''Enter name: '', ''Enter email: '', ''Enter age: '',
          ''Invalid age. Please enter a number.'',
          nl # ''Press Enter to continue'']\<rparr>)"
proof -
  have a: "py_int (strip ''abc'') = None"
    by (simp add: py_int_def strip_def isspace_def unsigned_int_def isdigit_def)
  have b: "py_int (strip ''thirty'') = None"
    by (simp add: py_int_def strip_def isspace_def unsigned_int_def isdigit_def)
  have c: "strip ''1'' = ''1''" "strip ''3'' = ''3''" "strip '' 4'' = ''4''" "strip ''5'' = ''5''"
    by (simp_all add: strip_def isspace_def)
  show ?thesis
    using invalid_number_reported [OF a c, THEN conjunct2, THEN conjunct2, THEN conjunct1]
      invalid_number_reported [OF b c, THEN conjunct2, THEN conjunct2, THEN conjunct2,
        THEN conjunct2, THEN conjunct1]
    by simp
qed

end
